theory Spec2Isabelle
  imports Complex_Main
begin

section \<open>JavaScript values of the adapter\<close>

text \<open>
  A JavaScript string is a sequence of UTF-16 code units; \<open>ustr\<close> writes an ASCII
  literal as such a sequence. A number is a finite value (every finite double is a
  rational; the two zeros are one value), \<open>NaN\<close> or an infinity; \<open>ofInt\<close> is the
  number of an integer.
\<close>

type_synonym jsstring = "nat list"

definition ustr :: "string \<Rightarrow> jsstring" where
  "ustr s = map of_char s"

datatype number = Finite rat | NaN | PosInfinity | NegInfinity

definition ofInt :: "int \<Rightarrow> number" where
  "ofInt n = Finite (of_int n)"

datatype json =
    JNull
  | JBool bool
  | JNum number
  | JStr jsstring
  | JArr "json list"
  | JObj "(jsstring \<times> json) list"

text \<open>
  \<open>Error\<close> objects: \<open>cause_code\<close> is \<open>error.cause?.code\<close>. A \<open>GitHubError\<close>
  extends \<open>Error\<close> by the HTTP status, the response payload and the data of its subclass
  (\<open>resetAt\<close> as a time value in milliseconds, \<open>timeoutMs\<close>, \<open>errorCode\<close>).
\<close>

record js_error =
  name :: jsstring
  message :: jsstring
  cause_code :: "jsstring option"

datatype error_kind =
    Generic
  | Validation
  | ResourceNotFound
  | Authentication
  | Permission
  | RateLimit int
  | Timeout number
  | Network jsstring
  | Conflict

record github_error = js_error +
  status :: int
  response :: json
  kind :: error_kind

datatype thrown = Plain js_error | GitHub github_error

definition newError :: "jsstring \<Rightarrow> js_error" where
  "newError msg = \<lparr>name = ustr ''Error'', message = msg, cause_code = None\<rparr>"

record URL =
  front :: jsstring
  query :: "jsstring option"
  searchParams :: "(jsstring \<times> jsstring) list"
  fragment :: "jsstring option"

datatype schema =
    WorkflowRunsSchema
  | WorkflowRunSchema
  | JobsSchema
  | WorkflowsSchema
  | WorkflowSchema
  | WorkflowUsageSchema

text \<open>
  What the platform and the libraries compute, where this development does not define it:
  \<open>toLowerCase\<close> and the form encoding of strings that hold a code unit outside ASCII,
  \<open>Number.prototype.toString\<close> of a finite number that is not a safe integer,
  \<open>Date.parse\<close> (\<open>None\<close> is \<open>NaN\<close>),
  \<open>Date.prototype.toISOString\<close> of a valid time value, the URL parser outside the plain
  URLs of \<open>plainUrl\<close>, the user-agent string, the token of the process environment, and
  the validation of a response against a declared shape.
\<close>

record host =
  lowerNonAscii :: "jsstring \<Rightarrow> jsstring"
  encodeNonAscii :: "jsstring \<Rightarrow> jsstring"
  numberString :: "rat \<Rightarrow> jsstring"
  dateParse :: "jsstring \<Rightarrow> int option"
  toISOString :: "int \<Rightarrow> jsstring"
  urlParse :: "jsstring \<Rightarrow> URL option"
  USER_AGENT :: jsstring
  GITHUB_PERSONAL_ACCESS_TOKEN :: "jsstring option"
  schemaParse :: "schema \<Rightarrow> json \<Rightarrow> thrown + json"

section \<open>Strings\<close>

definition isWhiteSpace :: "nat \<Rightarrow> bool" where
  "isWhiteSpace u =
     ((9 \<le> u \<and> u \<le> 13) \<or> u = 32 \<or> u = 160 \<or> u = 5760 \<or> (8192 \<le> u \<and> u \<le> 8202)
      \<or> u = 8232 \<or> u = 8233 \<or> u = 8239 \<or> u = 8287 \<or> u = 12288 \<or> u = 65279)"

definition trim :: "jsstring \<Rightarrow> jsstring" where
  "trim s = rev (dropWhile isWhiteSpace (rev (dropWhile isWhiteSpace s)))"

definition lowerUnit :: "nat \<Rightarrow> nat" where
  "lowerUnit u = (if 65 \<le> u \<and> u \<le> 90 then u + 32 else u)"

definition toLowerCase :: "host \<Rightarrow> jsstring \<Rightarrow> jsstring" where
  "toLowerCase h s = (if list_all (\<lambda>u. u < 128) s then map lowerUnit s else lowerNonAscii h s)"

definition startsWith :: "jsstring \<Rightarrow> jsstring \<Rightarrow> bool" where
  "startsWith s p = (take (length p) s = p)"

definition endsWith :: "jsstring \<Rightarrow> jsstring \<Rightarrow> bool" where
  "endsWith s p = (length p \<le> length s \<and> drop (length s - length p) s = p)"

section \<open>Regular expressions\<close>

text \<open>
  The two patterns of the validators are written in a small regular-expression type.
  \<open>match r s\<close> lists the remainders of \<open>s\<close> after each way \<open>r\<close> matches a prefix of it;
  \<open>test\<close> is \<open>RegExp.prototype.test\<close> for a pattern anchored by \<open>^\<close> and \<open>$\<close>.
  \<open>Repeat n r\<close> is \<open>r{0,n}\<close>.
\<close>

datatype regex =
    Class "nat \<Rightarrow> bool"
  | Seq regex regex
  | Alt regex regex
  | Lookahead regex
  | Repeat nat regex
  | Plus regex

fun iterate :: "(jsstring \<Rightarrow> jsstring list) \<Rightarrow> nat \<Rightarrow> jsstring \<Rightarrow> jsstring list" where
  "iterate m 0 s = [s]"
| "iterate m (Suc n) s = concat (map (iterate m n) (m s)) @ [s]"

primrec match :: "regex \<Rightarrow> jsstring \<Rightarrow> jsstring list" where
  "match (Class p) = (\<lambda>s. case s of [] \<Rightarrow> [] | c # cs \<Rightarrow> if p c then [cs] else [])"
| "match (Seq a b) = (\<lambda>s. concat (map (match b) (match a s)))"
| "match (Alt a b) = (\<lambda>s. match a s @ match b s)"
| "match (Lookahead a) = (\<lambda>s. if match a s = [] then [] else [s])"
| "match (Repeat n a) = iterate (match a) n"
| "match (Plus a) = (\<lambda>s. concat (map (iterate (match a) (length s)) (match a s)))"

definition test :: "regex \<Rightarrow> jsstring \<Rightarrow> bool" where
  "test r s = list_ex (\<lambda>t. t = []) (match r s)"

section \<open>Validator\<close>

definition alnum :: "nat \<Rightarrow> bool" where
  "alnum u = ((97 \<le> u \<and> u \<le> 122) \<or> (48 \<le> u \<and> u \<le> 57))"

definition hyphen :: "nat \<Rightarrow> bool" where
  "hyphen u = (u = 45)"

definition repoChar :: "nat \<Rightarrow> bool" where
  "repoChar u = (alnum u \<or> u = 95 \<or> u = 46 \<or> u = 45)"

text \<open>\<^verbatim>\<open>/^[a-z0-9_.-]+$/\<close>\<close>

definition repoRegex :: regex where
  "repoRegex = Plus (Class repoChar)"

text \<open>\<^verbatim>\<open>/^[a-z0-9](?:[a-z0-9]|-(?=[a-z0-9])){0,38}$/\<close>\<close>

definition ownerRegex :: regex where
  "ownerRegex =
     Seq (Class alnum)
       (Repeat 38 (Alt (Class alnum) (Seq (Class hyphen) (Lookahead (Class alnum)))))"

definition validateRepositoryName :: "host \<Rightarrow> jsstring \<Rightarrow> js_error + jsstring" where
  "validateRepositoryName h nm =
     (let sanitized = toLowerCase h (trim nm) in
      if sanitized = [] then Inl (newError (ustr ''Repository name cannot be empty''))
      else if \<not> test repoRegex sanitized then
        Inl (newError (ustr
          ''Repository name can only contain lowercase letters, numbers, hyphens, periods, and underscores''))
      else if startsWith sanitized (ustr ''.'') \<or> endsWith sanitized (ustr ''.'') then
        Inl (newError (ustr ''Repository name cannot start or end with a period''))
      else Inr sanitized)"

definition validateOwnerName :: "host \<Rightarrow> jsstring \<Rightarrow> js_error + jsstring" where
  "validateOwnerName h owner =
     (let sanitized = toLowerCase h (trim owner) in
      if sanitized = [] then Inl (newError (ustr ''Owner name cannot be empty''))
      else if \<not> test ownerRegex sanitized then
        Inl (newError (ustr
          ''Owner name must start with a letter or number and can contain up to 39 characters''))
      else Inr sanitized)"

text \<open>
  The owner-name rule in the words of the specification: \<open>[a-z0-9](-?[a-z0-9])*\<close> of at
  most 39 characters, that is letters, digits and hyphens only, a leading and a trailing
  letter or digit, and no two hyphens in a row.
\<close>

definition doubleHyphen :: "jsstring \<Rightarrow> bool" where
  "doubleHyphen s = list_ex (\<lambda>(a, b). a = 45 \<and> b = 45) (zip s (tl s))"

definition owner_rule :: "jsstring \<Rightarrow> bool" where
  "owner_rule s =
     (s \<noteq> [] \<and> length s \<le> 39 \<and> list_all (\<lambda>u. alnum u \<or> u = 45) s
      \<and> alnum (hd s) \<and> alnum (last s) \<and> \<not> doubleHyphen s)"

section \<open>Conversions of the language\<close>

text \<open>
  \<open>Number.prototype.toString\<close>: the decimal digits of a safe integer (an integer of
  absolute value at most \<open>2^53 - 1\<close>); beyond, the digits depend on the floating-point
  representation and are the host's.
\<close>

fun showNat :: "nat \<Rightarrow> jsstring" where
  "showNat n = (if n < 10 then [48 + n] else showNat (n div 10) @ [48 + n mod 10])"

declare showNat.simps [simp del]

definition isSafeInteger :: "rat \<Rightarrow> bool" where
  "isSafeInteger q = (of_int \<lfloor>q\<rfloor> = q \<and> \<bar>q\<bar> \<le> 9007199254740991)"

definition numberToString :: "host \<Rightarrow> number \<Rightarrow> jsstring" where
  "numberToString h x =
     (case x of
        Finite q \<Rightarrow>
          if isSafeInteger q then
            (if q < 0 then 45 # showNat (nat (- \<lfloor>q\<rfloor>)) else showNat (nat \<lfloor>q\<rfloor>))
          else numberString h q
      | NaN \<Rightarrow> ustr ''NaN''
      | PosInfinity \<Rightarrow> ustr ''Infinity''
      | NegInfinity \<Rightarrow> ustr ''-Infinity'')"

definition numberTruthy :: "number \<Rightarrow> bool" where
  "numberTruthy x = (x \<noteq> Finite 0 \<and> x \<noteq> NaN)"

text \<open>Truthiness, \<open>a || b\<close> and \<open>response?.key\<close> for the keys the adapter reads.\<close>

fun truthy :: "json \<Rightarrow> bool" where
  "truthy JNull = False"
| "truthy (JBool b) = b"
| "truthy (JNum n) = numberTruthy n"
| "truthy (JStr s) = (s \<noteq> [])"
| "truthy (JArr xs) = True"
| "truthy (JObj kvs) = True"

definition orElse :: "json option \<Rightarrow> json \<Rightarrow> json" where
  "orElse v d = (case v of None \<Rightarrow> d | Some x \<Rightarrow> if truthy x then x else d)"

definition orDefault :: "json option \<Rightarrow> json \<Rightarrow> json" where
  "orDefault v d = (case v of None \<Rightarrow> d | Some x \<Rightarrow> x)"

fun getProp :: "json \<Rightarrow> jsstring \<Rightarrow> json option" where
  "getProp (JObj kvs) k = map_of kvs k"
| "getProp v k = None"

definition TypeError :: js_error where
  "TypeError = \<lparr>name = ustr ''TypeError'',
     message = ustr ''Cannot convert object to primitive value'', cause_code = None\<rparr>"

definition RangeError :: js_error where
  "RangeError = \<lparr>name = ustr ''RangeError'', message = ustr ''Invalid time value'',
     cause_code = None\<rparr>"

text \<open>
  \<open>ToString\<close> of a parsed JSON value. An array joins its elements with commas, \<open>null\<close>
  elements as empty strings; an object is \<open>[object Object]\<close>, unless it has an own
  property \<open>toString\<close>: that value is not callable and the conversion raises.
\<close>

fun jsToString :: "host \<Rightarrow> json \<Rightarrow> js_error + jsstring"
  and joinElements :: "host \<Rightarrow> json list \<Rightarrow> js_error + jsstring" where
  "jsToString h JNull = Inr (ustr ''null'')"
| "jsToString h (JBool b) = Inr (if b then ustr ''true'' else ustr ''false'')"
| "jsToString h (JNum n) = Inr (numberToString h n)"
| "jsToString h (JStr s) = Inr s"
| "jsToString h (JArr xs) = joinElements h xs"
| "jsToString h (JObj kvs) =
     (if map_of kvs (ustr ''toString'') = None then Inr (ustr ''[object Object]'')
      else Inl TypeError)"
| "joinElements h [] = Inr []"
| "joinElements h (x # xs) =
     (case (if x = JNull then Inr [] else jsToString h x) of
        Inl e \<Rightarrow> Inl e
      | Inr s \<Rightarrow>
          if xs = [] then Inr s
          else (case joinElements h xs of Inl e \<Rightarrow> Inl e | Inr t \<Rightarrow> Inr (s @ 44 # t)))"

text \<open>
  \<open>new Date(v)\<close>: the time value in milliseconds, \<open>None\<close> for an invalid date. A
  number is cut to its integral part; a string is parsed; an array or an object is
  converted to a string first.
\<close>

definition timeClip :: "int \<Rightarrow> int option" where
  "timeClip t = (if \<bar>t\<bar> \<le> 8640000000000000 then Some t else None)"

definition timeValue :: "number \<Rightarrow> int option" where
  "timeValue x =
     (case x of
        Finite q \<Rightarrow>
          if \<bar>q\<bar> \<le> 8640000000000000 then Some (if 0 \<le> q then \<lfloor>q\<rfloor> else \<lceil>q\<rceil>) else None
      | _ \<Rightarrow> None)"

fun newDate :: "host \<Rightarrow> json \<Rightarrow> js_error + int option" where
  "newDate h JNull = Inr (timeClip 0)"
| "newDate h (JBool b) = Inr (timeClip (if b then 1 else 0))"
| "newDate h (JNum n) = Inr (timeValue n)"
| "newDate h (JStr s) = Inr (Option.bind (dateParse h s) timeClip)"
| "newDate h v =
     (case jsToString h v of
        Inl e \<Rightarrow> Inl e
      | Inr s \<Rightarrow> Inr (Option.bind (dateParse h s) timeClip))"

section \<open>Error taxonomy\<close>

text \<open>
  The constructors. The \<open>Error\<close> constructor converts a message that is not \<open>undefined\<close>
  to a string; \<open>Inl\<close> is the exception raised while the error object is built.
\<close>

definition GitHubError_named ::
  "host \<Rightarrow> jsstring \<Rightarrow> error_kind \<Rightarrow> json option \<Rightarrow> int \<Rightarrow> json \<Rightarrow> js_error + github_error" where
  "GitHubError_named h nm k msg st resp =
     (case (case msg of None \<Rightarrow> Inr [] | Some m \<Rightarrow> jsToString h m) of
        Inl e \<Rightarrow> Inl e
      | Inr m \<Rightarrow>
          Inr \<lparr>name = nm, message = m, cause_code = None,
               status = st, response = resp, kind = k\<rparr>)"

definition GitHubError :: "host \<Rightarrow> json option \<Rightarrow> int \<Rightarrow> json \<Rightarrow> js_error + github_error" where
  "GitHubError h msg st resp = GitHubError_named h (ustr ''GitHubError'') Generic msg st resp"

definition GitHubValidationError ::
  "host \<Rightarrow> json option \<Rightarrow> int \<Rightarrow> json \<Rightarrow> js_error + github_error" where
  "GitHubValidationError h msg st resp =
     GitHubError_named h (ustr ''GitHubValidationError'') Validation msg st resp"

definition GitHubResourceNotFoundError :: "host \<Rightarrow> json \<Rightarrow> js_error + github_error" where
  "GitHubResourceNotFoundError h resource =
     (case jsToString h resource of
        Inl e \<Rightarrow> Inl e
      | Inr r \<Rightarrow>
          GitHubError_named h (ustr ''GitHubResourceNotFoundError'') ResourceNotFound
            (Some (JStr (ustr ''Resource not found: '' @ r))) 404
            (JObj [(ustr ''message'', JStr (r @ ustr '' not found''))]))"

definition GitHubAuthenticationError :: "host \<Rightarrow> json option \<Rightarrow> js_error + github_error" where
  "GitHubAuthenticationError h msg =
     (let m = orDefault msg (JStr (ustr ''Authentication failed'')) in
      GitHubError_named h (ustr ''GitHubAuthenticationError'') Authentication
        (Some m) 401 (JObj [(ustr ''message'', m)]))"

definition GitHubPermissionError :: "host \<Rightarrow> json option \<Rightarrow> js_error + github_error" where
  "GitHubPermissionError h msg =
     (let m = orDefault msg (JStr (ustr ''Insufficient permissions'')) in
      GitHubError_named h (ustr ''GitHubPermissionError'') Permission
        (Some m) 403 (JObj [(ustr ''message'', m)]))"

definition GitHubRateLimitError ::
  "host \<Rightarrow> json option \<Rightarrow> int option \<Rightarrow> js_error + github_error" where
  "GitHubRateLimitError h msg resetAt =
     (let m = orDefault msg (JStr (ustr ''Rate limit exceeded'')) in
      case resetAt of
        None \<Rightarrow> Inl RangeError
      | Some t \<Rightarrow>
          GitHubError_named h (ustr ''GitHubRateLimitError'') (RateLimit t)
            (Some m) 429
            (JObj [(ustr ''message'', m), (ustr ''reset_at'', JStr (toISOString h t))]))"

definition GitHubTimeoutError :: "jsstring \<Rightarrow> number \<Rightarrow> github_error" where
  "GitHubTimeoutError msg ms =
     \<lparr>name = ustr ''GitHubTimeoutError'', message = msg, cause_code = None, status = 408,
      response = JObj [(ustr ''message'', JStr msg), (ustr ''timeout_ms'', JNum ms)],
      kind = Timeout ms\<rparr>"

definition GitHubNetworkError :: "jsstring \<Rightarrow> jsstring \<Rightarrow> github_error" where
  "GitHubNetworkError msg code =
     \<lparr>name = ustr ''GitHubNetworkError'', message = msg, cause_code = None, status = 500,
      response = JObj [(ustr ''message'', JStr msg), (ustr ''error_code'', JStr code)],
      kind = Network code\<rparr>"

definition GitHubConflictError :: "host \<Rightarrow> json \<Rightarrow> js_error + github_error" where
  "GitHubConflictError h msg =
     GitHubError_named h (ustr ''GitHubConflictError'') Conflict
       (Some msg) 409 (JObj [(ustr ''message'', msg)])"

definition createEnhancedGitHubError :: "js_error \<Rightarrow> github_error" where
  "createEnhancedGitHubError e =
     (if name e = ustr ''AbortError'' then
        GitHubTimeoutError (ustr ''Request timed out: '' @ message e) (ofInt 30000)
      else (case cause_code e of
              Some (c # cs) \<Rightarrow> GitHubNetworkError (ustr ''Network error: '' @ message e) (c # cs)
            | _ \<Rightarrow>
                \<lparr>name = ustr ''GitHubError'', message = message e, cause_code = None,
                 status = 500, response = JObj [(ustr ''message'', JStr (message e))],
                 kind = Generic\<rparr>))"

text \<open>\<open>now\<close> is the reading of \<open>Date.now()\<close>, taken when \<open>reset_at\<close> is missing or falsy.\<close>

definition createGitHubError :: "host \<Rightarrow> int \<Rightarrow> int \<Rightarrow> json \<Rightarrow> js_error + github_error" where
  "createGitHubError h now code resp =
     (if code = 401 then GitHubAuthenticationError h (getProp resp (ustr ''message''))
      else if code = 403 then GitHubPermissionError h (getProp resp (ustr ''message''))
      else if code = 404 then
        GitHubResourceNotFoundError h
          (orElse (getProp resp (ustr ''message'')) (JStr (ustr ''Resource'')))
      else if code = 409 then
        GitHubConflictError h
          (orElse (getProp resp (ustr ''message'')) (JStr (ustr ''Conflict occurred'')))
      else if code = 422 then
        GitHubValidationError h
          (Some (orElse (getProp resp (ustr ''message'')) (JStr (ustr ''Validation failed''))))
          code resp
      else if code = 429 then
        (case newDate h (orElse (getProp resp (ustr ''reset_at'')) (JNum (ofInt (now + 60000)))) of
           Inl e \<Rightarrow> Inl e
         | Inr d \<Rightarrow> GitHubRateLimitError h (getProp resp (ustr ''message'')) d)
      else
        GitHubError h
          (Some (orElse (getProp resp (ustr ''message'')) (JStr (ustr ''GitHub API error''))))
          code resp)"

text \<open>
  \<open>JSON.stringify\<close>. The pairs of \<open>JObj\<close> are the properties of the object in the order
  of their enumeration. A string is quoted; the quote, the backslash and the control
  characters are escaped, and so is a surrogate code unit that is not part of a pair.
\<close>

definition hexLower :: "nat \<Rightarrow> nat" where
  "hexLower n = (if n < 10 then 48 + n else 87 + n)"

definition unicodeEscape :: "nat \<Rightarrow> jsstring" where
  "unicodeEscape u =
     [92, 117, hexLower (u div 4096 mod 16), hexLower (u div 256 mod 16),
      hexLower (u div 16 mod 16), hexLower (u mod 16)]"

definition escapeUnit :: "nat \<Rightarrow> jsstring" where
  "escapeUnit u =
     (if u = 34 then [92, 34]
      else if u = 92 then [92, 92]
      else if u = 8 then [92, 98]
      else if u = 9 then [92, 116]
      else if u = 10 then [92, 110]
      else if u = 12 then [92, 102]
      else if u = 13 then [92, 114]
      else if u < 32 then unicodeEscape u
      else [u])"

fun escapeUnits :: "jsstring \<Rightarrow> jsstring" where
  "escapeUnits [] = []"
| "escapeUnits [u] =
     (if 55296 \<le> u \<and> u \<le> 57343 then unicodeEscape u else escapeUnit u)"
| "escapeUnits (u # v # r) =
     (if 55296 \<le> u \<and> u \<le> 56319 \<and> 56320 \<le> v \<and> v \<le> 57343 then u # v # escapeUnits r
      else if 55296 \<le> u \<and> u \<le> 57343 then unicodeEscape u @ escapeUnits (v # r)
      else escapeUnit u @ escapeUnits (v # r))"

definition quoteJSONString :: "jsstring \<Rightarrow> jsstring" where
  "quoteJSONString s = 34 # escapeUnits s @ [34]"

fun jsonStringify :: "host \<Rightarrow> json \<Rightarrow> jsstring"
  and stringifyElements :: "host \<Rightarrow> json list \<Rightarrow> jsstring"
  and stringifyProperties :: "host \<Rightarrow> (jsstring \<times> json) list \<Rightarrow> jsstring" where
  "jsonStringify h JNull = ustr ''null''"
| "jsonStringify h (JBool b) = (if b then ustr ''true'' else ustr ''false'')"
| "jsonStringify h (JNum n) =
     (case n of Finite q \<Rightarrow> numberToString h n | _ \<Rightarrow> ustr ''null'')"
| "jsonStringify h (JStr s) = quoteJSONString s"
| "jsonStringify h (JArr xs) = 91 # stringifyElements h xs @ [93]"
| "jsonStringify h (JObj kvs) = 123 # stringifyProperties h kvs @ [125]"
| "stringifyElements h [] = []"
| "stringifyElements h (x # xs) =
     jsonStringify h x @ (if xs = [] then [] else 44 # stringifyElements h xs)"
| "stringifyProperties h [] = []"
| "stringifyProperties h (kv # kvs) =
     quoteJSONString (fst kv) @ 58 # jsonStringify h (snd kv)
       @ (if kvs = [] then [] else 44 # stringifyProperties h kvs)"

section \<open>URLs and query parameters\<close>

text \<open>
  A parsed URL: \<open>front\<close> is the serialization up to the end of the path, \<open>query\<close> and
  \<open>fragment\<close> are absent or follow \<open>?\<close> and \<open>#\<close>, \<open>searchParams\<close> is the list of the
  \<open>URLSearchParams\<close> object. A plain URL is \<open>https://api.github.com/\<close> followed by
  letters, digits, \<open>-\<close>, \<open>_\<close>, \<open>.\<close> and \<open>/\<close> with no path segment \<open>.\<close> or \<open>..\<close>: the
  parser returns it as it is, with no query and no fragment.
\<close>

definition pathChar :: "nat \<Rightarrow> bool" where
  "pathChar u =
     ((65 \<le> u \<and> u \<le> 90) \<or> (97 \<le> u \<and> u \<le> 122) \<or> (48 \<le> u \<and> u \<le> 57)
      \<or> u = 45 \<or> u = 95 \<or> u = 46 \<or> u = 47)"

fun splitOn :: "nat \<Rightarrow> jsstring \<Rightarrow> jsstring list" where
  "splitOn c [] = [[]]"
| "splitOn c (x # xs) =
     (if x = c then [] # splitOn c xs
      else (case splitOn c xs of [] \<Rightarrow> [[x]] | s # ss \<Rightarrow> (x # s) # ss))"

definition plainUrl :: "jsstring \<Rightarrow> bool" where
  "plainUrl s =
     (startsWith s (ustr ''https://api.github.com/'')
      \<and> list_all pathChar (drop 23 s)
      \<and> list_all (\<lambda>seg. seg \<noteq> ustr ''.'' \<and> seg \<noteq> ustr ''..'') (splitOn 47 (drop 23 s)))"

definition InvalidURL :: js_error where
  "InvalidURL = \<lparr>name = ustr ''TypeError'', message = ustr ''Invalid URL'', cause_code = None\<rparr>"

definition newURL :: "host \<Rightarrow> jsstring \<Rightarrow> js_error + URL" where
  "newURL h s =
     (if plainUrl s then Inr \<lparr>front = s, query = None, searchParams = [], fragment = None\<rparr>
      else (case urlParse h s of None \<Rightarrow> Inl InvalidURL | Some u \<Rightarrow> Inr u))"

text \<open>
  The \<open>application/x-www-form-urlencoded\<close> serializer: letters, digits, \<open>*\<close>, \<open>-\<close>, \<open>.\<close>
  and \<open>_\<close> stay, a space becomes \<open>+\<close>, any other byte is percent-encoded.
\<close>

definition hexDigit :: "nat \<Rightarrow> nat" where
  "hexDigit n = (if n < 10 then 48 + n else 55 + n)"

definition formByte :: "nat \<Rightarrow> jsstring" where
  "formByte u =
     (if (65 \<le> u \<and> u \<le> 90) \<or> (97 \<le> u \<and> u \<le> 122) \<or> (48 \<le> u \<and> u \<le> 57)
         \<or> u = 42 \<or> u = 45 \<or> u = 46 \<or> u = 95 then [u]
      else if u = 32 then [43]
      else [37, hexDigit (u div 16), hexDigit (u mod 16)])"

definition formEncode :: "host \<Rightarrow> jsstring \<Rightarrow> jsstring" where
  "formEncode h s =
     (if list_all (\<lambda>u. u < 128) s then concat (map formByte s) else encodeNonAscii h s)"

fun joinWith :: "nat \<Rightarrow> jsstring list \<Rightarrow> jsstring" where
  "joinWith c [] = []"
| "joinWith c [x] = x"
| "joinWith c (x # y # ys) = x @ c # joinWith c (y # ys)"

definition serializeParams :: "host \<Rightarrow> (jsstring \<times> jsstring) list \<Rightarrow> jsstring" where
  "serializeParams h ps = joinWith 38 (map (\<lambda>(k, v). formEncode h k @ 61 # formEncode h v) ps)"

text \<open>\<open>url.searchParams.append(key, value)\<close> and \<open>url.toString()\<close>.\<close>

definition appendParam :: "host \<Rightarrow> URL \<Rightarrow> jsstring \<Rightarrow> jsstring \<Rightarrow> URL" where
  "appendParam h u k v =
     u\<lparr>searchParams := searchParams u @ [(k, v)],
       query := Some (serializeParams h (searchParams u @ [(k, v)]))\<rparr>"

definition href :: "URL \<Rightarrow> jsstring" where
  "href u =
     front u @ (case query u of None \<Rightarrow> [] | Some q \<Rightarrow> 63 # q)
             @ (case fragment u of None \<Rightarrow> [] | Some f \<Rightarrow> 35 # f)"

datatype param = PString jsstring | PNumber number

fun paramToString :: "host \<Rightarrow> param \<Rightarrow> jsstring" where
  "paramToString h (PString s) = s"
| "paramToString h (PNumber n) = numberToString h n"

text \<open>The parameter record is the list of its entries, in the order of \<open>Object.entries\<close>.\<close>

definition buildUrl :: "host \<Rightarrow> jsstring \<Rightarrow> (jsstring \<times> param option) list \<Rightarrow> js_error + jsstring" where
  "buildUrl h baseUrl params =
     (case newURL h baseUrl of
        Inl e \<Rightarrow> Inl e
      | Inr url \<Rightarrow>
          Inr (href (foldl (\<lambda>u (key, val).
                        case val of None \<Rightarrow> u | Some v \<Rightarrow> appendParam h u key (paramToString h v))
                      url params)))"

section \<open>Request gateway\<close>

text \<open>
  An outbound \<open>fetch\<close> call and what comes back: a response, with what \<open>response.json()\<close> and \<open>response.text()\<close> yield or
  raise, or a rejection.
\<close>

record request =
  req_url :: jsstring
  req_method :: jsstring
  req_headers :: "(jsstring \<times> jsstring) list"
  req_body :: "jsstring option"

record http_response =
  http_status :: int
  content_type :: "jsstring option"
  json_result :: "js_error + json"
  text_result :: "js_error + jsstring"

datatype fetch_outcome = Responded http_response | Rejected js_error

record RequestOptions =
  method_opt :: "jsstring option"
  body :: "json option"
  headers :: "(jsstring \<times> jsstring) list option"
  timeout :: "number option"

text \<open>
  The module's variables \<open>requestCount\<close> and \<open>requestCountResetTime\<close>, with the log of
  the outbound calls made so far.
\<close>

record gateway =
  requestCount :: int
  requestCountResetTime :: int
  fetched :: "request list"

text \<open>
  What one call of \<open>githubRequest\<close> reads from outside: \<open>Date.now()\<close> at the window check,
  at the window reset, at the computation of the wait time and in \<open>createGitHubError\<close>,
  and the outcome of \<open>fetch\<close> for a request under a timeout.
\<close>

record world =
  now_check :: int
  now_reset :: int
  now_wait :: int
  now_error :: int
  fetch :: "request \<Rightarrow> number \<Rightarrow> fetch_outcome"

definition DEFAULT_TIMEOUT :: number where
  "DEFAULT_TIMEOUT = ofInt 30000"

definition MAX_REQUESTS_PER_MINUTE :: int where
  "MAX_REQUESTS_PER_MINUTE = 60"

definition initialGateway :: "int \<Rightarrow> gateway" where
  "initialGateway now = \<lparr>requestCount = 0, requestCountResetTime = now + 60000, fetched = []\<rparr>"

definition includes_str :: "jsstring \<Rightarrow> jsstring \<Rightarrow> bool" where
  "includes_str s p = list_ex (\<lambda>i. startsWith (drop i s) p) [0 ..< Suc (length s)]"

text \<open>\<open>String(error)\<close> for an \<open>Error\<close> object.\<close>

definition errorToString :: "js_error \<Rightarrow> jsstring" where
  "errorToString e =
     (if name e = [] then message e
      else if message e = [] then name e
      else name e @ ustr '': '' @ message e)"

definition parseResponseBody :: "http_response \<Rightarrow> js_error + json" where
  "parseResponseBody r =
     (if (case content_type r of None \<Rightarrow> False
          | Some ct \<Rightarrow> includes_str ct (ustr ''application/json'')) then
        (case json_result r of
           Inl e \<Rightarrow> Inl (newError (ustr ''Error parsing JSON response: '' @ errorToString e))
         | Inr v \<Rightarrow> Inr v)
      else (case text_result r of Inl e \<Rightarrow> Inl e | Inr t \<Rightarrow> Inr (JStr t)))"

text \<open>Writing a property of the header object: an existing key keeps its place.\<close>

fun setHeader :: "jsstring \<Rightarrow> jsstring \<Rightarrow> (jsstring \<times> jsstring) list \<Rightarrow> (jsstring \<times> jsstring) list" where
  "setHeader k v [] = [(k, v)]"
| "setHeader k v (p # ps) = (if fst p = k then (k, v) # ps else p # setHeader k v ps)"

definition requestHeaders :: "host \<Rightarrow> RequestOptions \<Rightarrow> (jsstring \<times> jsstring) list" where
  "requestHeaders h options =
     (let hs = foldl (\<lambda>acc (k, v). setHeader k v acc)
                 [(ustr ''Accept'', ustr ''application/vnd.github.v3+json''),
                  (ustr ''Content-Type'', ustr ''application/json''),
                  (ustr ''User-Agent'', USER_AGENT h)]
                 (case headers options of None \<Rightarrow> [] | Some l \<Rightarrow> l) in
      case GITHUB_PERSONAL_ACCESS_TOKEN h of
        Some (c # cs) \<Rightarrow> setHeader (ustr ''Authorization'') (ustr ''Bearer '' @ c # cs) hs
      | _ \<Rightarrow> hs)"

definition ceilDiv1000 :: "int \<Rightarrow> int" where
  "ceilDiv1000 t = - ((- t) div 1000)"

definition rateLimitExceeded :: "host \<Rightarrow> int \<Rightarrow> js_error" where
  "rateLimitExceeded h waitTime =
     newError (ustr ''Rate limit exceeded. Please try again in ''
               @ numberToString h (ofInt (ceilDiv1000 waitTime)) @ ustr '' seconds.'')"

definition invalidApiUrl :: js_error where
  "invalidApiUrl =
     newError (ustr ''Invalid GitHub API URL. Only https://api.github.com/ URLs are allowed.'')"

text \<open>The window reset at the head of \<open>githubRequest\<close>.\<close>

definition rollWindow :: "world \<Rightarrow> gateway \<Rightarrow> gateway" where
  "rollWindow w g =
     (if now_check w > requestCountResetTime g
      then g\<lparr>requestCount := 0, requestCountResetTime := now_reset w + 60000\<rparr>
      else g)"

text \<open>The \<open>try\<close> block and the \<open>catch\<close> clause.\<close>

definition attempt :: "host \<Rightarrow> world \<Rightarrow> request \<Rightarrow> number \<Rightarrow> thrown + json" where
  "attempt h w req ms =
     (case fetch w req ms of
        Rejected e \<Rightarrow> Inl (Plain e)
      | Responded r \<Rightarrow>
          (case parseResponseBody r of
             Inl e \<Rightarrow> Inl (Plain e)
           | Inr responseBody \<Rightarrow>
               if \<not> (200 \<le> http_status r \<and> http_status r \<le> 299) then
                 (case createGitHubError h (now_error w) (http_status r) responseBody of
                    Inl e \<Rightarrow> Inl (Plain e)
                  | Inr g \<Rightarrow> Inl (GitHub g))
               else Inr responseBody))"

definition rethrow :: "host \<Rightarrow> number \<Rightarrow> thrown \<Rightarrow> thrown" where
  "rethrow h ms err =
     (let nm = (case err of Plain e \<Rightarrow> name e | GitHub g \<Rightarrow> name g);
          code = (case err of Plain e \<Rightarrow> cause_code e | GitHub g \<Rightarrow> cause_code g);
          other = (case err of
                     Plain e \<Rightarrow> GitHub (createEnhancedGitHubError e)
                   | GitHub g \<Rightarrow> GitHub g) in
      if nm = ustr ''AbortError'' then
        GitHub (GitHubTimeoutError
          (ustr ''Request timeout after '' @ numberToString h ms @ ustr ''ms'') ms)
      else (case code of
              None \<Rightarrow> other
            | Some c \<Rightarrow>
                if c = ustr ''ENOTFOUND'' \<or> c = ustr ''ECONNREFUSED'' then
                  GitHub (GitHubNetworkError (ustr ''Unable to connect to GitHub API'') c)
                else other))"

definition githubRequest ::
  "host \<Rightarrow> world \<Rightarrow> jsstring \<Rightarrow> RequestOptions \<Rightarrow> gateway \<Rightarrow> (thrown + json) \<times> gateway" where
  "githubRequest h w url options g =
     (let g1 = rollWindow w g in
      if requestCount g1 \<ge> MAX_REQUESTS_PER_MINUTE then
        (Inl (Plain (rateLimitExceeded h (requestCountResetTime g1 - now_wait w))), g1)
      else
        let g2 = g1\<lparr>requestCount := requestCount g1 + 1\<rparr> in
        if \<not> startsWith url (ustr ''https://api.github.com/'') then
          (Inl (Plain invalidApiUrl), g2)
        else
          let ms = (case timeout options of
                      None \<Rightarrow> DEFAULT_TIMEOUT
                    | Some t \<Rightarrow> if numberTruthy t then t else DEFAULT_TIMEOUT);
              req = \<lparr>req_url = url,
                     req_method = (case method_opt options of
                                     Some (c # cs) \<Rightarrow> c # cs
                                   | _ \<Rightarrow> ustr ''GET''),
                     req_headers = requestHeaders h options,
                     req_body = (case body options of
                                   None \<Rightarrow> None
                                 | Some b \<Rightarrow>
                                     if truthy b then Some (jsonStringify h b) else None)\<rparr>;
              g3 = g2\<lparr>fetched := fetched g2 @ [req]\<rparr>
          in (case attempt h w req ms of
                Inl err \<Rightarrow> (Inl (rethrow h ms err), g3)
              | Inr responseBody \<Rightarrow> (Inr responseBody, g3)))"

section \<open>Operation set\<close>

text \<open>
  The operations are asynchronous functions: \<open>orThrow\<close> is a synchronous step that may
  raise, \<open>await\<close> continues after a call that may reject. One operation runs at a time;
  the interleaving of concurrent operations is not modelled.
\<close>

definition orThrow ::
  "js_error + 'a \<Rightarrow> gateway \<Rightarrow> ('a \<Rightarrow> (thrown + 'b) \<times> gateway) \<Rightarrow> (thrown + 'b) \<times> gateway" where
  "orThrow r g k = (case r of Inl e \<Rightarrow> (Inl (Plain e), g) | Inr x \<Rightarrow> k x)"

definition await ::
  "(thrown + 'a) \<times> gateway \<Rightarrow> ('a \<Rightarrow> gateway \<Rightarrow> (thrown + 'b) \<times> gateway)
     \<Rightarrow> (thrown + 'b) \<times> gateway" where
  "await r k = (case r of (Inl e, g) \<Rightarrow> (Inl e, g) | (Inr x, g) \<Rightarrow> k x g)"

definition noOptions :: RequestOptions where
  "noOptions = \<lparr>method_opt = None, body = None, headers = None, timeout = None\<rparr>"

definition post :: RequestOptions where
  "post = \<lparr>method_opt = Some (ustr ''POST''), body = None, headers = None, timeout = None\<rparr>"

text \<open>A workflow is named by its file name or by its numeric id.\<close>

datatype workflow_id = WorkflowFile jsstring | WorkflowNumber number

fun idToString :: "host \<Rightarrow> workflow_id \<Rightarrow> jsstring" where
  "idToString h (WorkflowFile s) = s"
| "idToString h (WorkflowNumber n) = numberToString h n"

fun idTruthy :: "workflow_id \<Rightarrow> bool" where
  "idTruthy (WorkflowFile s) = (s \<noteq> [])"
| "idTruthy (WorkflowNumber n) = numberTruthy n"

record RunsOptions =
  opt_workflowId :: "workflow_id option"
  opt_actor :: "jsstring option"
  opt_branch :: "jsstring option"
  opt_event :: "jsstring option"
  opt_status :: "jsstring option"
  opt_created :: "jsstring option"
  opt_excludePullRequests :: "bool option"
  opt_checkSuiteId :: "number option"
  opt_page :: "number option"
  opt_perPage :: "number option"

definition repos :: "jsstring \<Rightarrow> jsstring \<Rightarrow> jsstring" where
  "repos owner repo = ustr ''https://api.github.com/repos/'' @ owner @ 47 # repo"

definition listWorkflows ::
  "host \<Rightarrow> world \<Rightarrow> jsstring \<Rightarrow> jsstring \<Rightarrow> number option \<Rightarrow> number option \<Rightarrow> gateway
     \<Rightarrow> (thrown + json) \<times> gateway" where
  "listWorkflows h w owner repo page perPage g =
     orThrow (validateOwnerName h owner) g (\<lambda>owner.
     orThrow (validateRepositoryName h repo) g (\<lambda>repo.
     orThrow (buildUrl h (repos owner repo @ ustr ''/actions/workflows'')
                [(ustr ''page'', map_option PNumber page),
                 (ustr ''per_page'', map_option PNumber perPage)]) g (\<lambda>url.
     await (githubRequest h w url noOptions g) (\<lambda>response g'.
       (schemaParse h WorkflowsSchema response, g')))))"

definition getWorkflow ::
  "host \<Rightarrow> world \<Rightarrow> jsstring \<Rightarrow> jsstring \<Rightarrow> workflow_id \<Rightarrow> gateway
     \<Rightarrow> (thrown + json) \<times> gateway" where
  "getWorkflow h w owner repo workflowId g =
     orThrow (validateOwnerName h owner) g (\<lambda>owner.
     orThrow (validateRepositoryName h repo) g (\<lambda>repo.
     await (githubRequest h w
              (repos owner repo @ ustr ''/actions/workflows/'' @ idToString h workflowId)
              noOptions g) (\<lambda>response g'.
       (schemaParse h WorkflowSchema response, g'))))"

definition getWorkflowUsage ::
  "host \<Rightarrow> world \<Rightarrow> jsstring \<Rightarrow> jsstring \<Rightarrow> workflow_id \<Rightarrow> gateway
     \<Rightarrow> (thrown + json) \<times> gateway" where
  "getWorkflowUsage h w owner repo workflowId g =
     orThrow (validateOwnerName h owner) g (\<lambda>owner.
     orThrow (validateRepositoryName h repo) g (\<lambda>repo.
     await (githubRequest h w
              (repos owner repo @ ustr ''/actions/workflows/'' @ idToString h workflowId
                 @ ustr ''/timing'')
              noOptions g) (\<lambda>response g'.
       (schemaParse h WorkflowUsageSchema response, g'))))"

text \<open>The base URL and the parameter record that \<open>listWorkflowRuns\<close> gives to \<open>buildUrl\<close>.\<close>

definition listWorkflowRunsBase :: "host \<Rightarrow> jsstring \<Rightarrow> jsstring \<Rightarrow> RunsOptions \<Rightarrow> jsstring" where
  "listWorkflowRunsBase h owner repo options =
     (case opt_workflowId options of
        None \<Rightarrow> repos owner repo @ ustr ''/actions/runs''
      | Some i \<Rightarrow>
          if idTruthy i then
            repos owner repo @ ustr ''/actions/workflows/'' @ idToString h i @ ustr ''/runs''
          else repos owner repo @ ustr ''/actions/runs'')"

definition listWorkflowRunsParams :: "RunsOptions \<Rightarrow> (jsstring \<times> param option) list" where
  "listWorkflowRunsParams options =
     [(ustr ''actor'', map_option PString (opt_actor options)),
      (ustr ''branch'', map_option PString (opt_branch options)),
      (ustr ''event'', map_option PString (opt_event options)),
      (ustr ''status'', map_option PString (opt_status options)),
      (ustr ''created'', map_option PString (opt_created options)),
      (ustr ''exclude_pull_requests'',
         if opt_excludePullRequests options = Some True then Some (PString (ustr ''true''))
         else None),
      (ustr ''check_suite_id'', map_option PNumber (opt_checkSuiteId options)),
      (ustr ''page'', map_option PNumber (opt_page options)),
      (ustr ''per_page'', map_option PNumber (opt_perPage options))]"

definition listWorkflowRuns ::
  "host \<Rightarrow> world \<Rightarrow> jsstring \<Rightarrow> jsstring \<Rightarrow> RunsOptions \<Rightarrow> gateway
     \<Rightarrow> (thrown + json) \<times> gateway" where
  "listWorkflowRuns h w owner repo options g =
     orThrow (validateOwnerName h owner) g (\<lambda>owner.
     orThrow (validateRepositoryName h repo) g (\<lambda>repo.
     orThrow (buildUrl h (listWorkflowRunsBase h owner repo options)
                (listWorkflowRunsParams options)) g (\<lambda>url.
     await (githubRequest h w url noOptions g) (\<lambda>response g'.
       (schemaParse h WorkflowRunsSchema response, g')))))"

definition getWorkflowRun ::
  "host \<Rightarrow> world \<Rightarrow> jsstring \<Rightarrow> jsstring \<Rightarrow> number \<Rightarrow> gateway \<Rightarrow> (thrown + json) \<times> gateway" where
  "getWorkflowRun h w owner repo runId g =
     orThrow (validateOwnerName h owner) g (\<lambda>owner.
     orThrow (validateRepositoryName h repo) g (\<lambda>repo.
     await (githubRequest h w
              (repos owner repo @ ustr ''/actions/runs/'' @ numberToString h runId)
              noOptions g) (\<lambda>response g'.
       (schemaParse h WorkflowRunSchema response, g'))))"

definition getWorkflowRunJobs ::
  "host \<Rightarrow> world \<Rightarrow> jsstring \<Rightarrow> jsstring \<Rightarrow> number \<Rightarrow> jsstring option \<Rightarrow> number option \<Rightarrow> number option
     \<Rightarrow> gateway \<Rightarrow> (thrown + json) \<times> gateway" where
  "getWorkflowRunJobs h w owner repo runId filter_by page perPage g =
     orThrow (validateOwnerName h owner) g (\<lambda>owner.
     orThrow (validateRepositoryName h repo) g (\<lambda>repo.
     orThrow (buildUrl h
                (repos owner repo @ ustr ''/actions/runs/'' @ numberToString h runId
                   @ ustr ''/jobs'')
                [(ustr ''filter'', map_option PString filter_by),
                 (ustr ''page'', map_option PNumber page),
                 (ustr ''per_page'', map_option PNumber perPage)]) g (\<lambda>url.
     await (githubRequest h w url noOptions g) (\<lambda>response g'.
       (schemaParse h JobsSchema response, g')))))"

text \<open>The request body of \<open>triggerWorkflow\<close>: \<open>inputs\<close> only when it has a key.\<close>

definition dispatchBody :: "jsstring \<Rightarrow> (jsstring \<times> jsstring) list option \<Rightarrow> json" where
  "dispatchBody gitref inputs =
     JObj ((ustr ''ref'', JStr gitref) #
           (case inputs of
              Some (kv # kvs) \<Rightarrow>
                [(ustr ''inputs'', JObj (map (\<lambda>(k, v). (k, JStr v)) (kv # kvs)))]
            | _ \<Rightarrow> []))"

definition triggerWorkflow ::
  "host \<Rightarrow> world \<Rightarrow> jsstring \<Rightarrow> jsstring \<Rightarrow> workflow_id \<Rightarrow> jsstring
     \<Rightarrow> (jsstring \<times> jsstring) list option \<Rightarrow> gateway \<Rightarrow> (thrown + json) \<times> gateway" where
  "triggerWorkflow h w owner repo workflowId gitref inputs g =
     orThrow (validateOwnerName h owner) g (\<lambda>owner.
     orThrow (validateRepositoryName h repo) g (\<lambda>repo.
     await (githubRequest h w
              (repos owner repo @ ustr ''/actions/workflows/'' @ idToString h workflowId
                 @ ustr ''/dispatches'')
              (post\<lparr>body := Some (dispatchBody gitref inputs)\<rparr>) g) (\<lambda>response g'.
       (Inr (JObj [(ustr ''success'', JBool True),
                   (ustr ''message'',
                      JStr (ustr ''Workflow '' @ idToString h workflowId
                            @ ustr '' triggered on '' @ gitref))]), g'))))"

definition cancelWorkflowRun ::
  "host \<Rightarrow> world \<Rightarrow> jsstring \<Rightarrow> jsstring \<Rightarrow> number \<Rightarrow> gateway \<Rightarrow> (thrown + json) \<times> gateway" where
  "cancelWorkflowRun h w owner repo runId g =
     orThrow (validateOwnerName h owner) g (\<lambda>owner.
     orThrow (validateRepositoryName h repo) g (\<lambda>repo.
     await (githubRequest h w
              (repos owner repo @ ustr ''/actions/runs/'' @ numberToString h runId
                 @ ustr ''/cancel'')
              post g) (\<lambda>response g'.
       (Inr (JObj [(ustr ''success'', JBool True),
                   (ustr ''message'',
                      JStr (ustr ''Workflow run '' @ numberToString h runId
                            @ ustr '' cancelled''))]), g'))))"

definition rerunWorkflowRun ::
  "host \<Rightarrow> world \<Rightarrow> jsstring \<Rightarrow> jsstring \<Rightarrow> number \<Rightarrow> gateway \<Rightarrow> (thrown + json) \<times> gateway" where
  "rerunWorkflowRun h w owner repo runId g =
     orThrow (validateOwnerName h owner) g (\<lambda>owner.
     orThrow (validateRepositoryName h repo) g (\<lambda>repo.
     await (githubRequest h w
              (repos owner repo @ ustr ''/actions/runs/'' @ numberToString h runId
                 @ ustr ''/rerun'')
              post g) (\<lambda>response g'.
       (Inr (JObj [(ustr ''success'', JBool True),
                   (ustr ''message'',
                      JStr (ustr ''Workflow run '' @ numberToString h runId
                            @ ustr '' restarted''))]), g'))))"

section \<open>Auxiliary definitions\<close>

text \<open>
  The step of the owner pattern's repetition, and the rule it enforces on the rest of a
  name: a letter or digit, or a hyphen with a letter or digit right after it.
\<close>

fun tailok :: "jsstring \<Rightarrow> bool" where
  "tailok [] = True"
| "tailok (c # cs) = ((alnum c \<or> (c = 45 \<and> cs \<noteq> [] \<and> alnum (hd cs))) \<and> tailok cs)"

definition ownerItem :: "jsstring \<Rightarrow> jsstring list" where
  "ownerItem s = (case s of [] \<Rightarrow> [] | c # cs \<Rightarrow>
        if alnum c \<or> (c = 45 \<and> cs \<noteq> [] \<and> alnum (hd cs)) then [cs] else [])"

text \<open>
  The conditions of the error mapping: the response's \<open>message\<close>, when there is one,
  converts to a string (every string, number, boolean and \<open>null\<close> does); a value is
  \<open>undefined\<close> or falsy.
\<close>

definition messageConverts :: "host \<Rightarrow> json \<Rightarrow> bool" where
  "messageConverts h resp =
     (case getProp resp (ustr ''message'') of None \<Rightarrow> True | Some m \<Rightarrow> \<not> isl (jsToString h m))"

definition falsyOrAbsent :: "json option \<Rightarrow> bool" where
  "falsyOrAbsent v = (case v of None \<Rightarrow> True | Some x \<Rightarrow> \<not> truthy x)"

text \<open>
  A host for evaluating examples: ASCII strings, safe integers and plain URLs never
  reach its first six fields.
\<close>

definition plainHost :: host where
  "plainHost = \<lparr>lowerNonAscii = (\<lambda>s. s), encodeNonAscii = (\<lambda>s. s),
     numberString = (\<lambda>q. []), dateParse = (\<lambda>s. None), toISOString = (\<lambda>t. []),
     urlParse = (\<lambda>s. None), USER_AGENT = ustr ''github-actions-mcp'',
     GITHUB_PERSONAL_ACCESS_TOKEN = None, schemaParse = (\<lambda>sc v. Inr v)\<rparr>"

text \<open>
  A sequence of calls of \<open>githubRequest\<close>, each with what it reads from outside; a result
  that is the gateway's own rate-limit error; and worlds and gateways for examples: every
  \<open>fetch\<close> answers 204 with an empty body, or is refused by the network; a gateway whose
  window is used up.
\<close>

fun runCalls ::
  "host \<Rightarrow> (world \<times> jsstring \<times> RequestOptions) list \<Rightarrow> gateway
     \<Rightarrow> (thrown + json) list \<times> gateway" where
  "runCalls h [] g = ([], g)"
| "runCalls h ((w, url, options) # calls) g =
     (case githubRequest h w url options g of
        (r, g1) \<Rightarrow> (case runCalls h calls g1 of (rs, g2) \<Rightarrow> (r # rs, g2)))"

definition isRateLimited :: "thrown + json \<Rightarrow> bool" where
  "isRateLimited r =
     (case r of
        Inl (Plain e) \<Rightarrow> startsWith (message e) (ustr ''Rate limit exceeded.'')
      | _ \<Rightarrow> False)"

definition quietWorld :: "int \<Rightarrow> world" where
  "quietWorld t =
     \<lparr>now_check = t, now_reset = t, now_wait = t, now_error = t,
      fetch = (\<lambda>req ms. Responded \<lparr>http_status = 204, content_type = None,
                 json_result = Inr JNull, text_result = Inr []\<rparr>)\<rparr>"

definition downWorld :: "int \<Rightarrow> world" where
  "downWorld t =
     \<lparr>now_check = t, now_reset = t, now_wait = t, now_error = t,
      fetch = (\<lambda>req ms. Rejected \<lparr>name = ustr ''TypeError'', message = ustr ''fetch failed'',
                 cause_code = Some (ustr ''ECONNREFUSED'')\<rparr>)\<rparr>"

definition fullGateway :: gateway where
  "fullGateway = \<lparr>requestCount = 60, requestCountResetTime = 60000, fetched = []\<rparr>"

text \<open>
  The query in the words of the specification: the pairs of a parameter record whose
  value is not \<open>undefined\<close>, each value converted by \<open>toString\<close>, appended in order;
  \<open>given k v\<close> is the pair of an optional parameter. \<open>onlyExclude b\<close> sets
  \<open>excludePullRequests\<close> to \<open>b\<close> and nothing else.
\<close>

definition definedPairs :: "host \<Rightarrow> (jsstring \<times> param option) list \<Rightarrow> (jsstring \<times> jsstring) list" where
  "definedPairs h ps =
     concat (map (\<lambda>(k, v). case v of None \<Rightarrow> [] | Some x \<Rightarrow> [(k, paramToString h x)]) ps)"

definition withParams :: "host \<Rightarrow> URL \<Rightarrow> (jsstring \<times> jsstring) list \<Rightarrow> URL" where
  "withParams h u qs = foldl (\<lambda>u (k, v). appendParam h u k v) u qs"

definition onlyExclude :: "bool \<Rightarrow> RunsOptions" where
  "onlyExclude b =
     \<lparr>opt_workflowId = None, opt_actor = None, opt_branch = None, opt_event = None,
      opt_status = None, opt_created = None, opt_excludePullRequests = Some b,
      opt_checkSuiteId = None, opt_page = None, opt_perPage = None\<rparr>"

definition given :: "jsstring \<Rightarrow> jsstring option \<Rightarrow> (jsstring \<times> jsstring) list" where
  "given k v = (case v of None \<Rightarrow> [] | Some x \<Rightarrow> [(k, x)])"

text \<open>
  The query text in the words of the URL standard: the characters that stay as they are,
  the characters that can occur in an encoded name or value, the decoder of the form
  encoding, and the query of a list of pairs, \<open>?\<close> and the encoded pairs \<open>name=value\<close>
  joined by \<open>&\<close>, or nothing when there is no pair.
\<close>

definition unreserved :: "nat \<Rightarrow> bool" where
  "unreserved u =
     ((65 \<le> u \<and> u \<le> 90) \<or> (97 \<le> u \<and> u \<le> 122) \<or> (48 \<le> u \<and> u \<le> 57)
      \<or> u = 42 \<or> u = 45 \<or> u = 46 \<or> u = 95)"

definition queryChar :: "nat \<Rightarrow> bool" where
  "queryChar u = (unreserved u \<or> u = 43 \<or> u = 37)"

definition unhex :: "nat \<Rightarrow> nat" where
  "unhex d = (if 48 \<le> d \<and> d \<le> 57 then d - 48 else d - 55)"

function formDecode :: "jsstring \<Rightarrow> jsstring" where
  "formDecode [] = []"
| "formDecode (c # r) =
     (if c = 37 \<and> 2 \<le> length r then
        (16 * unhex (hd r) + unhex (hd (tl r))) # formDecode (drop 2 r)
      else if c = 43 then 32 # formDecode r
      else c # formDecode r)"
  by pat_completeness auto
termination
  by (relation "measure length") auto

definition queryText :: "host \<Rightarrow> (jsstring \<times> jsstring) list \<Rightarrow> jsstring" where
  "queryText h ps =
     (if ps = [] then []
      else 63 # joinWith 38 (map (\<lambda>(k, v). formEncode h k @ 61 # formEncode h v) ps))"

text \<open>
  Options of \<open>listWorkflowRuns\<close>: no workflow is named (\<open>workflowId\<close> is \<open>undefined\<close> or
  falsy); an example with an actor, a branch, the flag and the page parameters.
\<close>

definition noWorkflow :: "RunsOptions \<Rightarrow> bool" where
  "noWorkflow options = (case opt_workflowId options of None \<Rightarrow> True | Some i \<Rightarrow> \<not> idTruthy i)"

definition busyOptions :: RunsOptions where
  "busyOptions =
     \<lparr>opt_workflowId = None, opt_actor = Some (ustr ''octo cat''),
      opt_branch = Some (ustr ''feat/x&y''), opt_event = None, opt_status = None,
      opt_created = None, opt_excludePullRequests = Some True, opt_checkSuiteId = None,
      opt_page = Some (Finite 2), opt_perPage = Some (Finite 50)\<rparr>"

section \<open>The validator\<close>

lemma not_alnum_45: "\<not> alnum 45" by (simp add: alnum_def)

lemma match_ownerItem:
  "match (Alt (Class alnum) (Seq (Class hyphen) (Lookahead (Class alnum)))) = ownerItem"
proof (rule ext)
  fix s show "match (Alt (Class alnum) (Seq (Class hyphen) (Lookahead (Class alnum)))) s = ownerItem s"
  proof (cases s)
    case Nil then show ?thesis by (simp add: ownerItem_def)
  next
    case (Cons c cs)
    then show ?thesis 
      by (cases cs) (auto simp: ownerItem_def hyphen_def not_alnum_45)
  qed
qed

lemma iterate_ownerItem:
  "[] \<in> set (iterate ownerItem n s) \<longleftrightarrow> length s \<le> n \<and> tailok s"
proof (induction n arbitrary: s)
  case 0 then show ?case by (cases s) auto
next
  case (Suc n)
  show ?case
  proof (cases s)
    case Nil then show ?thesis by simp
  next
    case (Cons c cs)
    have step: "ownerItem (c # cs) =
        (if alnum c \<or> (c = 45 \<and> cs \<noteq> [] \<and> alnum (hd cs)) then [cs] else [])"
      by (simp add: ownerItem_def)
    show ?thesis unfolding Cons using Suc.IH[of cs] by (auto simp: step)
  qed
qed

lemma test_ownerRegex: "test ownerRegex s \<longleftrightarrow> (case s of [] \<Rightarrow> False | c # cs \<Rightarrow> alnum c \<and> length cs \<le> 38 \<and> tailok cs)"
proof (cases s)
  case Nil then show ?thesis by (simp add: test_def ownerRegex_def)
next
  case (Cons c cs)
  have "match ownerRegex s = (if alnum c then iterate ownerItem 38 cs else [])"
    unfolding ownerRegex_def using Cons by (simp only: match.simps(2,1,5) match_ownerItem) simp
  then show ?thesis using Cons iterate_ownerItem[of 38 cs]
    by (simp add: test_def list_ex_iff)
qed

lemma tailok_iff: "tailok s \<longleftrightarrow> list_all (\<lambda>u. alnum u \<or> u = 45) s \<and> (s \<noteq> [] \<longrightarrow> alnum (last s)) \<and> \<not> doubleHyphen s"
proof (induction s)
  case Nil show ?case by (simp add: doubleHyphen_def)
next
  case (Cons c cs)
  show ?case
  proof (cases cs)
    case Nil then show ?thesis by (auto simp: doubleHyphen_def not_alnum_45)
  next
    case (Cons d ds)
    then show ?thesis using Cons.IH by (auto simp: doubleHyphen_def not_alnum_45)
  qed
qed

lemma test_ownerRegex_rule: "test ownerRegex s \<longleftrightarrow> owner_rule s"
proof (cases s)
  case Nil then show ?thesis by (simp add: test_ownerRegex owner_rule_def)
next
  case (Cons c cs)
  show ?thesis unfolding test_ownerRegex owner_rule_def tailok_iff using Cons
    by (cases cs) (auto simp: doubleHyphen_def not_alnum_45)
qed

lemma iterate_Class: "[] \<in> set (iterate (match (Class p)) n s) \<longleftrightarrow> length s \<le> n \<and> list_all p s"
proof (induction n arbitrary: s)
  case 0 then show ?case by (cases s) auto
next
  case (Suc n)
  show ?case
  proof (cases s)
    case Nil then show ?thesis by simp
  next
    case (Cons c cs)
    have step: "match (Class p) (c # cs) = (if p c then [cs] else [])" by simp
    show ?thesis unfolding Cons using Suc.IH[of cs] by (auto simp: step simp del: match.simps)
  qed
qed

lemma test_repoRegex: "test repoRegex s \<longleftrightarrow> s \<noteq> [] \<and> list_all repoChar s"
proof (cases s)
  case Nil then show ?thesis by (simp add: test_def repoRegex_def)
next
  case (Cons c cs)
  have step: "match (Class repoChar) (c # cs) = (if repoChar c then [cs] else [])" by simp
  have "match repoRegex s = (if repoChar c then iterate (match (Class repoChar)) (Suc (length cs)) cs else [])"
    unfolding repoRegex_def Cons by (simp add: step del: iterate.simps match.simps(1))
  then show ?thesis using Cons iterate_Class[of repoChar "Suc (length cs)" cs]
    by (simp add: test_def list_ex_iff del: iterate.simps match.simps(1))
qed

lemma repoChar_ascii: "repoChar u \<Longrightarrow> u < 128"
  by (auto simp: repoChar_def alnum_def)

lemma repoChar_lower: "repoChar u \<Longrightarrow> lowerUnit u = u"
  by (auto simp: repoChar_def alnum_def lowerUnit_def)

lemma repoChar_not_space: "repoChar u \<Longrightarrow> \<not> isWhiteSpace u"
  by (auto simp: repoChar_def alnum_def isWhiteSpace_def)

lemma toLowerCase_repoChar:
  assumes "list_all repoChar s" shows "toLowerCase h s = s"
proof -
  have a: "list_all (\<lambda>u. u < 128) s" using assms by (induction s) (auto dest: repoChar_ascii)
  have b: "map lowerUnit s = s" using assms by (induction s) (auto dest: repoChar_lower)
  show ?thesis by (simp add: toLowerCase_def a b)
qed

lemma dropWhile_hd: "s \<noteq> [] \<Longrightarrow> \<not> P (hd s) \<Longrightarrow> dropWhile P s = s"
  by (cases s) auto

lemma trim_repoChar:
  assumes "list_all repoChar s" shows "trim s = s"
proof (cases "s = []")
  case True then show ?thesis by (simp add: trim_def)
next
  case False
  have h: "\<not> isWhiteSpace (hd s)" using assms False by (cases s) (auto dest: repoChar_not_space)
  have "repoChar (last s)" using assms False by (simp add: list_all_iff)
  then have l: "\<not> isWhiteSpace (hd (rev s))" using False by (simp add: hd_rev repoChar_not_space)
  have d1: "dropWhile isWhiteSpace s = s" using False h by (rule dropWhile_hd)
  have d2: "dropWhile isWhiteSpace (rev s) = rev s" using False l by (intro dropWhile_hd) simp_all
  show ?thesis by (simp add: trim_def d1 d2)
qed

text \<open>
  C6. For every input string, \<open>validateOwnerName\<close> trims and lowercases it, fails on the
  empty result, returns the trimmed lowercased string when it satisfies the owner-name rule
  (\<open>[a-z0-9](-?[a-z0-9])*\<close>, at most 39 characters), and fails otherwise.
\<close>

theorem validateOwnerName_rule:
  "validateOwnerName h owner =
     (if toLowerCase h (trim owner) = [] then Inl (newError (ustr ''Owner name cannot be empty''))
      else if owner_rule (toLowerCase h (trim owner)) then Inr (toLowerCase h (trim owner))
      else Inl (newError (ustr
        ''Owner name must start with a letter or number and can contain up to 39 characters'')))"
  by (simp add: validateOwnerName_def Let_def test_ownerRegex_rule)

theorem validateOwnerName_rule_witness:
  "validateOwnerName plainHost (ustr ''  Octo-Cat '') = Inr (ustr ''octo-cat'')
   \<and> validateOwnerName plainHost (ustr ''a--b'') = Inl (newError (ustr
        ''Owner name must start with a letter or number and can contain up to 39 characters''))
   \<and> validateOwnerName plainHost (ustr ''   '') = Inl (newError (ustr ''Owner name cannot be empty''))"
proof -
  have t: "toLowerCase plainHost (trim (ustr ''  Octo-Cat '')) = ustr ''octo-cat''"
    "toLowerCase plainHost (trim (ustr ''a--b'')) = ustr ''a--b''"
    "toLowerCase plainHost (trim (ustr ''   '')) = []"
    by (simp_all add: ustr_def trim_def isWhiteSpace_def toLowerCase_def lowerUnit_def)
  have r: "owner_rule (ustr ''octo-cat'')" "\<not> owner_rule (ustr ''a--b'')" "ustr ''octo-cat'' \<noteq> []" "ustr ''a--b'' \<noteq> []"
    by (simp_all add: ustr_def owner_rule_def alnum_def doubleHyphen_def)
  show ?thesis
    using validateOwnerName_rule[of plainHost "ustr ''  Octo-Cat ''"]
          validateOwnerName_rule[of plainHost "ustr ''a--b''"]
          validateOwnerName_rule[of plainHost "ustr ''   ''"]
    by (simp only: t r if_True if_False simp_thms)
qed

lemma validateRepositoryName_eq:
  "validateRepositoryName h nm =
     (let sanitized = toLowerCase h (trim nm) in
      if sanitized = [] then Inl (newError (ustr ''Repository name cannot be empty''))
      else if \<not> list_all repoChar sanitized then
        Inl (newError (ustr
          ''Repository name can only contain lowercase letters, numbers, hyphens, periods, and underscores''))
      else if hd sanitized = 46 \<or> last sanitized = 46 then
        Inl (newError (ustr ''Repository name cannot start or end with a period''))
      else Inr sanitized)"
proof -
  have s: "startsWith s (ustr ''.'') \<longleftrightarrow> hd s = 46" if "s \<noteq> []" for s
    using that by (cases s) (auto simp: startsWith_def ustr_def)
  have e: "endsWith s (ustr ''.'') \<longleftrightarrow> last s = 46" if "s \<noteq> []" for s
  proof -
    from that have "s = butlast s @ [last s]" by simp
    then obtain ys y where "s = ys @ [y]" "last s = y" by metis
    then show ?thesis by (auto simp: endsWith_def ustr_def)
  qed
  show ?thesis
    by (auto simp: validateRepositoryName_def Let_def test_repoRegex s e)
qed

text \<open>
  C7. \<open>validateRepositoryName\<close> fails for every name whose trimmed lowercased form is
  empty, holds a character outside \<open>[a-z0-9_.-]\<close>, or starts or ends with a period; and
  validating a value it returned succeeds and returns that same value.
\<close>

theorem validateRepositoryName_idempotent:
  "(toLowerCase h (trim nm) = [] \<or> list_ex (\<lambda>u. \<not> repoChar u) (toLowerCase h (trim nm))
      \<or> hd (toLowerCase h (trim nm)) = 46 \<or> last (toLowerCase h (trim nm)) = 46
     \<longrightarrow> isl (validateRepositoryName h nm))
   \<and> (validateRepositoryName h nm = Inr v \<longrightarrow> validateRepositoryName h v = Inr v)"
proof (intro conjI impI)
  assume "toLowerCase h (trim nm) = [] \<or> list_ex (\<lambda>u. \<not> repoChar u) (toLowerCase h (trim nm))
      \<or> hd (toLowerCase h (trim nm)) = 46 \<or> last (toLowerCase h (trim nm)) = 46"
  then show "isl (validateRepositoryName h nm)"
    unfolding validateRepositoryName_eq Let_def by (auto simp: list_all_iff list_ex_iff)
next
  assume a: "validateRepositoryName h nm = Inr v"
  then have v: "v \<noteq> []" "list_all repoChar v" "hd v \<noteq> 46" "last v \<noteq> 46"
    unfolding validateRepositoryName_eq Let_def by (auto split: if_splits)
  have "toLowerCase h (trim v) = v" by (simp add: trim_repoChar[OF v(2)] toLowerCase_repoChar[OF v(2)])
  then show "validateRepositoryName h v = Inr v"
    unfolding validateRepositoryName_eq Let_def using v by simp
qed

theorem validateRepositoryName_idempotent_witness:
  "isl (validateRepositoryName plainHost (ustr ''.github''))
   \<and> isl (validateRepositoryName plainHost (ustr ''my repo''))
   \<and> validateRepositoryName plainHost (ustr '' My.Repo_1 '') = Inr (ustr ''my.repo_1'')
   \<and> validateRepositoryName plainHost (ustr ''my.repo_1'') = Inr (ustr ''my.repo_1'')"
proof -
  have t: "toLowerCase plainHost (trim (ustr ''.github'')) = ustr ''.github''"
    "toLowerCase plainHost (trim (ustr ''my repo'')) = ustr ''my repo''"
    by (simp_all add: ustr_def trim_def isWhiteSpace_def toLowerCase_def lowerUnit_def)
  have a: "validateRepositoryName plainHost (ustr '' My.Repo_1 '') = Inr (ustr ''my.repo_1'')"
    unfolding validateRepositoryName_eq Let_def
    by (simp add: ustr_def trim_def isWhiteSpace_def toLowerCase_def lowerUnit_def repoChar_def alnum_def)
  have b: "hd (ustr ''.github'') = 46" "list_ex (\<lambda>u. \<not> repoChar u) (ustr ''my repo'')"
    by (simp_all add: ustr_def repoChar_def alnum_def)
  show ?thesis
    using validateRepositoryName_idempotent[of plainHost "ustr ''.github''" v]
          validateRepositoryName_idempotent[of plainHost "ustr ''my repo''" v]
          validateRepositoryName_idempotent[of plainHost "ustr '' My.Repo_1 ''" "ustr ''my.repo_1''"]
          a
    by (simp only: t b simp_thms)
qed

section \<open>The error mapping\<close>

lemma timeValue_ofInt: "timeValue (ofInt n) = timeClip n"
  by (simp add: timeValue_def ofInt_def timeClip_def)

lemma numberToString_small:
  "numberToString h (Finite 1) = ustr ''1''" "numberToString h (ofInt 58) = ustr ''58''"
  "numberToString h (ofInt 59) = ustr ''59''"
  by (simp_all add: numberToString_def isSafeInteger_def ofInt_def showNat.simps ustr_def)

lemma numberToString_host:
  "numberToString h (Finite 9007199254740991) = ustr ''9007199254740991''"
  "numberToString h (Finite (- 12)) = ustr ''-12''"
  "numberToString h (Finite 1152921504606846976) = numberString h 1152921504606846976"
  "numberToString h (Finite (3 / 2)) = numberString h (3 / 2)"
  "numberToString h NaN = ustr ''NaN''"
  "numberToString h PosInfinity = ustr ''Infinity''"
proof -
  have f: "\<lfloor>(3::rat) / 2\<rfloor> = 1" by (simp add: floor_eq_iff)
  have n: "\<not> isSafeInteger (3 / 2)" by (simp add: isSafeInteger_def f)
  show "numberToString h (Finite (3 / 2)) = numberString h (3 / 2)"
    by (simp add: numberToString_def n)
  show "numberToString h (Finite 9007199254740991) = ustr ''9007199254740991''"
    by (simp add: numberToString_def isSafeInteger_def showNat.simps ustr_def)
  show "numberToString h (Finite (- 12)) = ustr ''-12''"
    by (simp add: numberToString_def isSafeInteger_def showNat.simps ustr_def)
  show "numberToString h (Finite 1152921504606846976) = numberString h 1152921504606846976"
    by (simp add: numberToString_def isSafeInteger_def)
  show "numberToString h NaN = ustr ''NaN''" "numberToString h PosInfinity = ustr ''Infinity''"
    by (simp_all add: numberToString_def)
qed

lemma not_isl_Inr: "\<not> isl x \<Longrightarrow> \<exists>s. x = Inr s"
  by (cases x) auto

lemma orElse_converts:
  "messageConverts h resp \<Longrightarrow> \<exists>s. jsToString h (orElse (getProp resp (ustr ''message'')) (JStr d)) = Inr s"
  by (auto simp: messageConverts_def orElse_def not_isl_Inr split: option.splits)

lemma orDefault_converts:
  "messageConverts h resp \<Longrightarrow> \<exists>s. jsToString h (orDefault (getProp resp (ustr ''message'')) (JStr d)) = Inr s"
  by (auto simp: messageConverts_def orDefault_def not_isl_Inr split: option.splits)

lemma not_found:
  assumes "messageConverts h resp"
  shows "\<exists>e. createGitHubError h now 404 resp = Inr e \<and> kind e = ResourceNotFound \<and> status e = 404"
proof -
  obtain s where "jsToString h (orElse (getProp resp (ustr ''message'')) (JStr (ustr ''Resource''))) = Inr s"
    using orElse_converts[OF assms] by blast
  then show ?thesis
    by (simp add: createGitHubError_def GitHubResourceNotFoundError_def GitHubError_named_def)
qed

lemma generic:
  assumes "messageConverts h resp" "code \<notin> {401, 403, 404, 409, 422, 429}"
  shows "\<exists>e. createGitHubError h now code resp = Inr e \<and> kind e = Generic \<and> status e = code \<and> response e = resp"
proof -
  obtain s where "jsToString h (orElse (getProp resp (ustr ''message'')) (JStr (ustr ''GitHub API error''))) = Inr s"
    using orElse_converts[OF assms(1)] by blast
  then show ?thesis using assms(2)
    by (simp add: createGitHubError_def GitHubError_def GitHubError_named_def)
qed

lemma rate_default:
  assumes "messageConverts h resp" "falsyOrAbsent (getProp resp (ustr ''reset_at''))"
    "\<bar>now + 60000\<bar> \<le> 8640000000000000"
  shows "\<exists>e. createGitHubError h now 429 resp = Inr e \<and> kind e = RateLimit (now + 60000) \<and> status e = 429"
proof -
  obtain s where s: "jsToString h (orDefault (getProp resp (ustr ''message'')) (JStr (ustr ''Rate limit exceeded''))) = Inr s"
    using orDefault_converts[OF assms(1)] by blast
  have d: "orElse (getProp resp (ustr ''reset_at'')) (JNum (ofInt (now + 60000))) = JNum (ofInt (now + 60000))"
    using assms(2) by (auto simp: falsyOrAbsent_def orElse_def split: option.splits)
  show ?thesis using assms(3)
    by (simp add: createGitHubError_def d timeValue_ofInt timeClip_def GitHubRateLimitError_def Let_def GitHubError_named_def s)
qed

lemma rate_given:
  assumes "messageConverts h resp" "getProp resp (ustr ''reset_at'') = Some v" "truthy v"
    "newDate h v = Inr (Some t)"
  shows "\<exists>e. createGitHubError h now 429 resp = Inr e \<and> kind e = RateLimit t \<and> status e = 429"
proof -
  obtain s where s: "jsToString h (orDefault (getProp resp (ustr ''message'')) (JStr (ustr ''Rate limit exceeded''))) = Inr s"
    using orDefault_converts[OF assms(1)] by blast
  have d: "orElse (getProp resp (ustr ''reset_at'')) (JNum (ofInt (now + 60000))) = v"
    using assms(2,3) by (auto simp: orElse_def)
  show ?thesis using assms(4)
    by (simp add: createGitHubError_def d GitHubRateLimitError_def Let_def GitHubError_named_def s)
qed

lemma mapped_total:
  assumes "messageConverts h resp" "code \<noteq> 429"
  shows "\<not> isl (createGitHubError h now code resp)"
proof -
  have named: "\<not> isl (jsToString h m) \<Longrightarrow> \<not> isl (GitHubError_named h nm k (Some m) st r)"
    for m nm k st r
    by (auto simp: GitHubError_named_def split: sum.splits)
  have s: "\<not> isl (jsToString h (orDefault (getProp resp (ustr ''message'')) (JStr d)))" for d
    using orDefault_converts[OF assms(1), of d] by auto
  have r: "\<not> isl (jsToString h (orElse (getProp resp (ustr ''message'')) (JStr d)))" for d
    using orElse_converts[OF assms(1), of d] by auto
  have nf: "\<not> isl (GitHubResourceNotFoundError h
      (orElse (getProp resp (ustr ''message'')) (JStr (ustr ''Resource''))))"
    using orElse_converts[OF assms(1), of "ustr ''Resource''"]
    by (auto simp: GitHubResourceNotFoundError_def GitHubError_named_def)
  show ?thesis using assms(2)
    by (simp add: createGitHubError_def GitHubAuthenticationError_def GitHubPermissionError_def
        GitHubConflictError_def GitHubValidationError_def GitHubError_def Let_def
        named s r nf)
qed

text \<open>
  C1 (as amended). \<open>createGitHubError\<close> is a function of the status, the response body
  and the clock. For every response whose \<open>message\<close>, if any, converts to a string: every
  status other than 429 yields an error object; status 404 yields \<open>ResourceNotFound\<close>;
  status 429 yields \<open>RateLimit\<close> with the reset time \<open>new Date(reset_at)\<close> when
  \<open>reset_at\<close> is truthy and a valid date, and with \<open>now + 60000\<close> when \<open>reset_at\<close> is
  missing or falsy; every status outside 401, 403, 404, 409, 422, 429 yields \<open>Generic\<close>
  with the status and the response unchanged.
\<close>

theorem createGitHubError_mapping:
  "(messageConverts h resp \<and> code' \<noteq> 429 \<longrightarrow> \<not> isl (createGitHubError h now code' resp))
   \<and> (messageConverts h resp \<longrightarrow>
      (\<exists>e. createGitHubError h now 404 resp = Inr e \<and> kind e = ResourceNotFound \<and> status e = 404))
   \<and> (messageConverts h resp \<and> getProp resp (ustr ''reset_at'') = Some v \<and> truthy v
        \<and> newDate h v = Inr (Some t) \<longrightarrow>
      (\<exists>e. createGitHubError h now 429 resp = Inr e \<and> kind e = RateLimit t \<and> status e = 429))
   \<and> (messageConverts h resp \<and> falsyOrAbsent (getProp resp (ustr ''reset_at''))
        \<and> \<bar>now + 60000\<bar> \<le> 8640000000000000 \<longrightarrow>
      (\<exists>e. createGitHubError h now 429 resp = Inr e \<and> kind e = RateLimit (now + 60000)
           \<and> status e = 429))
   \<and> (messageConverts h resp \<and> code \<notin> {401, 403, 404, 409, 422, 429} \<longrightarrow>
      (\<exists>e. createGitHubError h now code resp = Inr e \<and> kind e = Generic \<and> status e = code
           \<and> response e = resp))"
  using mapped_total not_found rate_given rate_default generic by blast

theorem createGitHubError_mapping_witness:
  "\<not> isl (createGitHubError plainHost 1000 500 (JStr (ustr ''oops'')))
   \<and> (\<exists>e. createGitHubError plainHost 1000 404 (JObj [(ustr ''message'', JStr (ustr ''Not Found''))]) = Inr e
        \<and> kind e = ResourceNotFound \<and> status e = 404)
   \<and> (\<exists>e. createGitHubError plainHost 1000 429 (JObj [(ustr ''reset_at'', JNum (Finite 1700000000000))]) = Inr e
        \<and> kind e = RateLimit 1700000000000 \<and> status e = 429)
   \<and> (\<exists>e. createGitHubError plainHost 1000 429 (JObj [(ustr ''message'', JStr (ustr ''slow down''))]) = Inr e
        \<and> kind e = RateLimit 61000 \<and> status e = 429)
   \<and> (\<exists>e. createGitHubError plainHost 1000 500 (JStr (ustr ''oops'')) = Inr e
        \<and> kind e = Generic \<and> status e = 500 \<and> response e = JStr (ustr ''oops''))"
proof -
  have a: "messageConverts plainHost (JObj [(ustr ''message'', JStr (ustr ''Not Found''))])"
    by (simp add: messageConverts_def)
  have b: "messageConverts plainHost (JObj [(ustr ''reset_at'', JNum (Finite 1700000000000))])"
    "getProp (JObj [(ustr ''reset_at'', JNum (Finite 1700000000000))]) (ustr ''reset_at'') = Some (JNum (Finite 1700000000000))"
    "truthy (JNum (Finite 1700000000000))" "newDate plainHost (JNum (Finite 1700000000000)) = Inr (Some 1700000000000)"
    by (simp_all add: messageConverts_def ustr_def timeValue_def numberTruthy_def)
  have c: "messageConverts plainHost (JObj [(ustr ''message'', JStr (ustr ''slow down''))])"
    "falsyOrAbsent (getProp (JObj [(ustr ''message'', JStr (ustr ''slow down''))]) (ustr ''reset_at''))"
    "\<bar>1000 + 60000\<bar> \<le> (8640000000000000::int)"
    by (simp_all add: messageConverts_def falsyOrAbsent_def ustr_def)
  have d: "messageConverts plainHost (JStr (ustr ''oops''))" "(500::int) \<notin> {401, 403, 404, 409, 422, 429}"
    by (simp_all add: messageConverts_def)
  show ?thesis
    using createGitHubError_mapping[where h = plainHost
        and resp = "JObj [(ustr ''message'', JStr (ustr ''Not Found''))]" and now = 1000]
      createGitHubError_mapping[where h = plainHost
        and resp = "JObj [(ustr ''reset_at'', JNum (Finite 1700000000000))]"
        and v = "JNum (Finite 1700000000000)" and t = 1700000000000 and now = 1000]
      createGitHubError_mapping[where h = plainHost
        and resp = "JObj [(ustr ''message'', JStr (ustr ''slow down''))]" and now = 1000]
      createGitHubError_mapping[where h = plainHost
        and resp = "JStr (ustr ''oops'')" and now = 1000 and code = 500 and code' = 500]
      a b c d
    by simp
qed

text \<open>
  C1 as stated fails: a response whose \<open>reset_at\<close> is present with the value \<open>0\<close> (the
  date \<open>new Date(0)\<close>) gets the default reset time \<open>now + 60000\<close>, not the field's.
\<close>

theorem createGitHubError_reset_at_counterexample:
  "getProp (JObj [(ustr ''reset_at'', JNum (Finite 0))]) (ustr ''reset_at'') = Some (JNum (Finite 0))
   \<and> newDate plainHost (JNum (Finite 0)) = Inr (Some 0)
   \<and> map_sum id kind
         (createGitHubError plainHost 1000 429 (JObj [(ustr ''reset_at'', JNum (Finite 0))]))
       = Inr (RateLimit 61000)"
proof -
  have a: "getProp (JObj [(ustr ''reset_at'', JNum (Finite 0))]) (ustr ''reset_at'')
      = Some (JNum (Finite 0))"
    by simp
  have b: "newDate plainHost (JNum (Finite 0)) = Inr (Some 0)"
    by (simp add: timeValue_def)
  have c: "orElse (Some (JNum (Finite 0))) (JNum (ofInt 61000)) = JNum (ofInt 61000)"
    by (simp add: orElse_def numberTruthy_def)
  have m: "getProp (JObj [(ustr ''reset_at'', JNum (Finite 0))]) (ustr ''message'') = None"
    by (simp add: ustr_def)
  have d: "map_sum id kind
         (createGitHubError plainHost 1000 429 (JObj [(ustr ''reset_at'', JNum (Finite 0))]))
       = Inr (RateLimit 61000)"
    by (simp add: createGitHubError_def a c m timeValue_ofInt timeClip_def
        GitHubRateLimitError_def orDefault_def GitHubError_named_def)
  show ?thesis using a b d by simp
qed

text \<open>
  Where the mapping raises instead of returning an error object: a \<open>reset_at\<close> that is
  not a valid date (\<open>toISOString\<close> raises \<open>RangeError\<close>), and a \<open>message\<close> with no string
  conversion.
\<close>

lemma createGitHubError_invalid_date:
  "createGitHubError plainHost 1000 429
     (JObj [(ustr ''reset_at'', JNum (Finite 10000000000000000))]) = Inl RangeError"
proof -
  have c: "orElse (Some (JNum (Finite 10000000000000000))) d = JNum (Finite 10000000000000000)"
    for d
    by (simp add: orElse_def numberTruthy_def)
  have m: "getProp (JObj [(ustr ''reset_at'', JNum (Finite 10000000000000000))]) (ustr ''message'')
      = None"
    by (simp add: ustr_def)
  show ?thesis
    by (simp add: createGitHubError_def c m timeValue_def GitHubRateLimitError_def orDefault_def)
qed

lemma createGitHubError_unparsed_date:
  "dateParse h (ustr ''soon'') = None \<Longrightarrow>
   createGitHubError h now 429 (JObj [(ustr ''reset_at'', JStr (ustr ''soon''))]) = Inl RangeError"
  by (simp add: createGitHubError_def ustr_def orElse_def GitHubRateLimitError_def
      orDefault_def)

lemma createGitHubError_message_raises:
  "createGitHubError h now 404 (JObj [(ustr ''message'', JObj [(ustr ''toString'', JNum (Finite 1))])])
     = Inl TypeError"
  by (simp add: createGitHubError_def ustr_def orElse_def GitHubResourceNotFoundError_def)

section \<open>The request gateway\<close>

lemma rollWindow_same: "now_check w \<le> requestCountResetTime g \<Longrightarrow> rollWindow w g = g"
  by (simp add: rollWindow_def)

lemma rethrow_GitHub: "\<exists>e. rethrow h ms err = GitHub e"
  by (cases err) (auto simp: rethrow_def Let_def split: option.splits)

lemma githubRequest_limited:
  assumes "requestCount (rollWindow w g) \<ge> 60"
  shows "githubRequest h w url options g =
     (Inl (Plain (rateLimitExceeded h (requestCountResetTime (rollWindow w g) - now_wait w))),
      rollWindow w g)"
  using assms by (simp add: githubRequest_def Let_def MAX_REQUESTS_PER_MINUTE_def)

lemma githubRequest_untrusted:
  assumes "requestCount (rollWindow w g) < 60" "\<not> startsWith url (ustr ''https://api.github.com/'')"
  shows "githubRequest h w url options g =
     (Inl (Plain invalidApiUrl), (rollWindow w g)\<lparr>requestCount := requestCount (rollWindow w g) + 1\<rparr>)"
  using assms by (simp add: githubRequest_def Let_def MAX_REQUESTS_PER_MINUTE_def)

lemma githubRequest_admitted_state:
  assumes "requestCount (rollWindow w g) < 60"
  shows "requestCount (snd (githubRequest h w url options g)) = requestCount (rollWindow w g) + 1"
    and "requestCountResetTime (snd (githubRequest h w url options g)) = requestCountResetTime (rollWindow w g)"
  using assms by (auto simp: githubRequest_def Let_def MAX_REQUESTS_PER_MINUTE_def split: sum.splits)

lemma githubRequest_trusted_result:
  assumes "requestCount (rollWindow w g) < 60" "startsWith url (ustr ''https://api.github.com/'')"
  shows "(\<exists>e. fst (githubRequest h w url options g) = Inl (GitHub e)) \<or> (\<exists>b. fst (githubRequest h w url options g) = Inr b)"
  using assms rethrow_GitHub
  by (auto simp: githubRequest_def Let_def MAX_REQUESTS_PER_MINUTE_def split: sum.splits)

lemma invalidApiUrl_not_limited: "\<not> isRateLimited (Inl (Plain invalidApiUrl))"
  by (simp add: isRateLimited_def invalidApiUrl_def newError_def startsWith_def ustr_def)

lemma githubRequest_admitted_result:
  assumes "requestCount (rollWindow w g) < 60"
  shows "\<not> isRateLimited (fst (githubRequest h w url options g))"
proof (cases "startsWith url (ustr ''https://api.github.com/'')")
  case True
  from githubRequest_trusted_result[OF assms True, of h options] show ?thesis
    by (auto simp: isRateLimited_def)
next
  case False
  show ?thesis by (simp add: githubRequest_untrusted[OF assms False] invalidApiUrl_not_limited)
qed

lemma runCalls_in_window:
  assumes "requestCount g + int (length calls) \<le> 60"
    "list_all (\<lambda>(w, url, options). now_check w \<le> requestCountResetTime g) calls"
  shows "requestCount (snd (runCalls h calls g)) = requestCount g + int (length calls)
    \<and> requestCountResetTime (snd (runCalls h calls g)) = requestCountResetTime g
    \<and> list_all (\<lambda>r. \<not> isRateLimited r) (fst (runCalls h calls g))"
  using assms
proof (induction calls arbitrary: g)
  case Nil then show ?case by simp
next
  case (Cons c calls)
  obtain w url options where c: "c = (w, url, options)" by (cases c) auto
  have win: "now_check w \<le> requestCountResetTime g" using Cons.prems(2) c by simp
  have same: "rollWindow w g = g" using win by (rule rollWindow_same)
  have lt: "requestCount (rollWindow w g) < 60" using Cons.prems(1) same by simp
  obtain r g1 where r: "githubRequest h w url options g = (r, g1)" by (cases "githubRequest h w url options g")
  have g1: "requestCount g1 = requestCount g + 1" "requestCountResetTime g1 = requestCountResetTime g"
    using githubRequest_admitted_state[OF lt, of h url options] r same by simp_all
  have nr: "\<not> isRateLimited r" using githubRequest_admitted_result[OF lt, of h url options] r by simp
  have ih: "requestCount (snd (runCalls h calls g1)) = requestCount g1 + int (length calls)
    \<and> requestCountResetTime (snd (runCalls h calls g1)) = requestCountResetTime g1
    \<and> list_all (\<lambda>r. \<not> isRateLimited r) (fst (runCalls h calls g1))"
    using Cons.prems g1 by (intro Cons.IH) (simp_all add: c)
  obtain rs g2 where rs: "runCalls h calls g1 = (rs, g2)" by (cases "runCalls h calls g1")
  show ?case using ih g1 nr by (simp add: c r rs)
qed

text \<open>
  C2. From the start of a window, 60 calls made before the reset time are all admitted;
  the 61st call in the window fails with the rate-limit error that quotes the remaining
  wait in seconds, leaves the gateway as it was and makes no outbound call. A call made
  after the reset time sets the counter to zero and the reset time to 60 seconds after
  the clock, and is admitted.
\<close>

theorem githubRequest_rate_window:
  "(requestCount g = 0 \<and> length calls = 60
      \<and> list_all (\<lambda>(w', url', options'). now_check w' \<le> requestCountResetTime g) calls
      \<and> now_check w \<le> requestCountResetTime g \<longrightarrow>
        list_all (\<lambda>r. \<not> isRateLimited r) (fst (runCalls h calls g))
      \<and> requestCount (snd (runCalls h calls g)) = 60
      \<and> githubRequest h w url options (snd (runCalls h calls g)) =
          (Inl (Plain (rateLimitExceeded h (requestCountResetTime g - now_wait w))),
           snd (runCalls h calls g))
      \<and> fetched (snd (githubRequest h w url options (snd (runCalls h calls g))))
          = fetched (snd (runCalls h calls g)))
   \<and> (now_check w > requestCountResetTime g \<longrightarrow>
        rollWindow w g = g\<lparr>requestCount := 0, requestCountResetTime := now_reset w + 60000\<rparr>
      \<and> requestCount (snd (githubRequest h w url options g)) = 1
      \<and> requestCountResetTime (snd (githubRequest h w url options g)) = now_reset w + 60000)"
proof (intro conjI impI)
  assume a: "requestCount g = 0 \<and> length calls = 60
      \<and> list_all (\<lambda>(w', url', options'). now_check w' \<le> requestCountResetTime g) calls
      \<and> now_check w \<le> requestCountResetTime g"
  let ?g = "snd (runCalls h calls g)"
  have run: "requestCount ?g = requestCount g + int (length calls)
    \<and> requestCountResetTime ?g = requestCountResetTime g
    \<and> list_all (\<lambda>r. \<not> isRateLimited r) (fst (runCalls h calls g))"
    using a by (intro runCalls_in_window) simp_all
  show "list_all (\<lambda>r. \<not> isRateLimited r) (fst (runCalls h calls g))" using run by simp
  show c60: "requestCount ?g = 60" using run a by simp
  have same: "rollWindow w ?g = ?g" using run a by (simp add: rollWindow_same)
  show lim: "githubRequest h w url options ?g =
          (Inl (Plain (rateLimitExceeded h (requestCountResetTime g - now_wait w))), ?g)"
    using githubRequest_limited[of w ?g h url options] same c60 run by simp
  show "fetched (snd (githubRequest h w url options ?g)) = fetched ?g" by (simp add: lim)
next
  assume b: "now_check w > requestCountResetTime g"
  show r: "rollWindow w g = g\<lparr>requestCount := 0, requestCountResetTime := now_reset w + 60000\<rparr>"
    using b by (simp add: rollWindow_def)
  have lt: "requestCount (rollWindow w g) < 60" by (simp add: r)
  show "requestCount (snd (githubRequest h w url options g)) = 1"
    using githubRequest_admitted_state(1)[OF lt, of h url options] by (simp add: r)
  show "requestCountResetTime (snd (githubRequest h w url options g)) = now_reset w + 60000"
    using githubRequest_admitted_state(2)[OF lt, of h url options] by (simp add: r)
qed

lemma rateLimitExceeded_58:
  "rateLimitExceeded plainHost (60000 - 2500) =
     newError (ustr ''Rate limit exceeded. Please try again in 58 seconds.'')"
  by (simp add: rateLimitExceeded_def ceilDiv1000_def numberToString_def isSafeInteger_def ofInt_def
        showNat.simps ustr_def)

theorem githubRequest_rate_window_witness:
  "list_all (\<lambda>r. \<not> isRateLimited r)
     (fst (runCalls plainHost
        (replicate 60 (quietWorld 1000, ustr ''https://api.github.com/user'', noOptions))
        (initialGateway 0)))
   \<and> requestCount (snd (runCalls plainHost
        (replicate 60 (quietWorld 1000, ustr ''https://api.github.com/user'', noOptions))
        (initialGateway 0))) = 60
   \<and> githubRequest plainHost (quietWorld 2500) (ustr ''https://api.github.com/user'') noOptions
        (snd (runCalls plainHost
           (replicate 60 (quietWorld 1000, ustr ''https://api.github.com/user'', noOptions))
           (initialGateway 0)))
       = (Inl (Plain (newError (ustr ''Rate limit exceeded. Please try again in 58 seconds.''))),
          snd (runCalls plainHost
            (replicate 60 (quietWorld 1000, ustr ''https://api.github.com/user'', noOptions))
            (initialGateway 0)))
   \<and> rollWindow (quietWorld 60001) fullGateway
       = fullGateway\<lparr>requestCount := 0, requestCountResetTime := 120001\<rparr>
   \<and> requestCount (snd (githubRequest plainHost (quietWorld 60001)
        (ustr ''https://api.github.com/user'') noOptions fullGateway)) = 1
   \<and> requestCountResetTime (snd (githubRequest plainHost (quietWorld 60001)
        (ustr ''https://api.github.com/user'') noOptions fullGateway)) = 120001"
proof -
  have a: "requestCount (initialGateway 0) = 0"
    "requestCountResetTime (initialGateway 0) = 60000"
    "length (replicate 60 (quietWorld 1000, ustr ''https://api.github.com/user'', noOptions)) = 60"
    "list_all (\<lambda>(w', url', options'). now_check w' \<le> 60000)
       (replicate 60 (quietWorld 1000, ustr ''https://api.github.com/user'', noOptions))"
    "now_check (quietWorld 2500) \<le> 60000" "now_wait (quietWorld 2500) = 2500"
    by (simp_all add: initialGateway_def quietWorld_def list_all_iff)
  have b: "now_check (quietWorld 60001) > requestCountResetTime fullGateway"
    "now_reset (quietWorld 60001) + 60000 = 120001"
    by (simp_all add: quietWorld_def fullGateway_def)
  show ?thesis
    using githubRequest_rate_window[where g = "initialGateway 0" and h = plainHost
        and calls = "replicate 60 (quietWorld 1000, ustr ''https://api.github.com/user'', noOptions)"
        and w = "quietWorld 2500" and url = "ustr ''https://api.github.com/user''"
        and options = noOptions]
      githubRequest_rate_window[where g = fullGateway and h = plainHost and calls = "[]"
        and w = "quietWorld 60001" and url = "ustr ''https://api.github.com/user''"
        and options = noOptions]
      a b rateLimitExceeded_58
    by simp
qed

text \<open>
  C3 (as amended). For every url that does not begin with \<open>https://api.github.com/\<close>,
  \<open>githubRequest\<close> makes no outbound call and fails locally: with the URL validation error
  when the quota check passes, with the rate-limit error when the window is used up. For
  every url on the trusted host that passes the quota check, the URL validation error is
  not raised.
\<close>

theorem githubRequest_untrusted_url:
  "(\<not> startsWith url (ustr ''https://api.github.com/'') \<longrightarrow>
      fetched (snd (githubRequest h w url options g)) = fetched g
    \<and> fst (githubRequest h w url options g) =
        (if requestCount (rollWindow w g) < MAX_REQUESTS_PER_MINUTE then Inl (Plain invalidApiUrl)
         else Inl (Plain (rateLimitExceeded h
                 (requestCountResetTime (rollWindow w g) - now_wait w)))))
   \<and> (startsWith url (ustr ''https://api.github.com/'')
        \<and> requestCount (rollWindow w g) < MAX_REQUESTS_PER_MINUTE \<longrightarrow>
      fst (githubRequest h w url options g) \<noteq> Inl (Plain invalidApiUrl))"
proof (intro conjI impI)
  assume u: "\<not> startsWith url (ustr ''https://api.github.com/'')"
  have f: "fetched (rollWindow w g) = fetched g" by (simp add: rollWindow_def)
  show "fetched (snd (githubRequest h w url options g)) = fetched g"
    using u f by (simp add: githubRequest_def Let_def)
  show "fst (githubRequest h w url options g) =
        (if requestCount (rollWindow w g) < MAX_REQUESTS_PER_MINUTE then Inl (Plain invalidApiUrl)
         else Inl (Plain (rateLimitExceeded h
                 (requestCountResetTime (rollWindow w g) - now_wait w))))"
    using u by (simp add: githubRequest_def Let_def)
next
  assume t: "startsWith url (ustr ''https://api.github.com/'')
        \<and> requestCount (rollWindow w g) < MAX_REQUESTS_PER_MINUTE"
  then have "(\<exists>e. fst (githubRequest h w url options g) = Inl (GitHub e))
     \<or> (\<exists>b. fst (githubRequest h w url options g) = Inr b)"
    using githubRequest_trusted_result[of w g url h options]
    by (simp add: MAX_REQUESTS_PER_MINUTE_def)
  then show "fst (githubRequest h w url options g) \<noteq> Inl (Plain invalidApiUrl)" by auto
qed

theorem githubRequest_untrusted_url_witness:
  "fetched (snd (githubRequest plainHost (quietWorld 1000) (ustr ''https://evil.example/'')
       noOptions (initialGateway 0))) = []
   \<and> fst (githubRequest plainHost (quietWorld 1000) (ustr ''https://evil.example/'')
       noOptions (initialGateway 0)) = Inl (Plain invalidApiUrl)
   \<and> fst (githubRequest plainHost (quietWorld 1000) (ustr ''https://api.github.com/user'')
       noOptions (initialGateway 0)) \<noteq> Inl (Plain invalidApiUrl)"
proof -
  have a: "\<not> startsWith (ustr ''https://evil.example/'') (ustr ''https://api.github.com/'')"
    "startsWith (ustr ''https://api.github.com/user'') (ustr ''https://api.github.com/'')"
    by (simp_all add: startsWith_def ustr_def)
  have b: "requestCount (rollWindow (quietWorld 1000) (initialGateway 0)) < MAX_REQUESTS_PER_MINUTE"
    "fetched (initialGateway 0) = []"
    by (simp_all add: rollWindow_def quietWorld_def initialGateway_def MAX_REQUESTS_PER_MINUTE_def)
  show ?thesis
    using githubRequest_untrusted_url[where h = plainHost and w = "quietWorld 1000"
        and url = "ustr ''https://evil.example/''" and options = noOptions
        and g = "initialGateway 0"]
      githubRequest_untrusted_url[where h = plainHost and w = "quietWorld 1000"
        and url = "ustr ''https://api.github.com/user''" and options = noOptions
        and g = "initialGateway 0"]
      a b
    by simp
qed

text \<open>
  C3 as stated fails: with the window used up, a call for a foreign url fails with the
  rate-limit error, not with the URL validation error.
\<close>

theorem githubRequest_untrusted_url_counterexample:
  "\<not> startsWith (ustr ''https://evil.example/'') (ustr ''https://api.github.com/'')
   \<and> fst (githubRequest plainHost (quietWorld 1000) (ustr ''https://evil.example/'')
        noOptions fullGateway)
       = Inl (Plain (newError (ustr ''Rate limit exceeded. Please try again in 59 seconds.'')))
   \<and> fst (githubRequest plainHost (quietWorld 1000) (ustr ''https://evil.example/'')
        noOptions fullGateway) \<noteq> Inl (Plain invalidApiUrl)"
proof -
  have r: "rollWindow (quietWorld 1000) fullGateway = fullGateway"
    by (simp add: rollWindow_def quietWorld_def fullGateway_def)
  have m: "rateLimitExceeded plainHost (60000 - 1000) =
     newError (ustr ''Rate limit exceeded. Please try again in 59 seconds.'')"
    by (simp add: rateLimitExceeded_def ceilDiv1000_def numberToString_def isSafeInteger_def ofInt_def
        showNat.simps ustr_def)
  have g: "githubRequest plainHost (quietWorld 1000) (ustr ''https://evil.example/'')
        noOptions fullGateway
      = (Inl (Plain (newError (ustr ''Rate limit exceeded. Please try again in 59 seconds.''))),
         fullGateway)"
    using githubRequest_limited[of "quietWorld 1000" fullGateway plainHost
        "ustr ''https://evil.example/''" noOptions] m
    by (simp add: r) (simp add: fullGateway_def quietWorld_def)
  show ?thesis
    by (simp add: g) (simp add: startsWith_def ustr_def newError_def invalidApiUrl_def)
qed

text \<open>
  C10. Every call that passes the quota check leaves the counter one above its value
  after the window check; so does a call rejected for a foreign url, which is rejected
  after the increment, and a call whose HTTP request fails; no call leaves the counter
  below its value after the window check.
\<close>

theorem githubRequest_consumes_quota:
  "(requestCount (rollWindow w g) < MAX_REQUESTS_PER_MINUTE \<longrightarrow>
      requestCount (snd (githubRequest h w url options g)) = requestCount (rollWindow w g) + 1)
   \<and> (requestCount (rollWindow w g) < MAX_REQUESTS_PER_MINUTE
        \<and> \<not> startsWith url (ustr ''https://api.github.com/'') \<longrightarrow>
      githubRequest h w url options g =
        (Inl (Plain invalidApiUrl),
         (rollWindow w g)\<lparr>requestCount := requestCount (rollWindow w g) + 1\<rparr>))
   \<and> (requestCount (rollWindow w g) < MAX_REQUESTS_PER_MINUTE
        \<and> startsWith url (ustr ''https://api.github.com/'')
        \<and> isl (fst (githubRequest h w url options g)) \<longrightarrow>
      length (fetched (snd (githubRequest h w url options g))) = length (fetched g) + 1
      \<and> requestCount (snd (githubRequest h w url options g)) = requestCount (rollWindow w g) + 1)
   \<and> requestCount (rollWindow w g) \<le> requestCount (snd (githubRequest h w url options g))"
proof (intro conjI impI)
  assume "requestCount (rollWindow w g) < MAX_REQUESTS_PER_MINUTE"
  then show "requestCount (snd (githubRequest h w url options g)) = requestCount (rollWindow w g) + 1"
    using githubRequest_admitted_state(1)[of w g h url options]
    by (simp add: MAX_REQUESTS_PER_MINUTE_def)
next
  assume "requestCount (rollWindow w g) < MAX_REQUESTS_PER_MINUTE
        \<and> \<not> startsWith url (ustr ''https://api.github.com/'')"
  then show "githubRequest h w url options g =
        (Inl (Plain invalidApiUrl),
         (rollWindow w g)\<lparr>requestCount := requestCount (rollWindow w g) + 1\<rparr>)"
    using githubRequest_untrusted[of w g url h options]
    by (simp add: MAX_REQUESTS_PER_MINUTE_def)
next
  assume a: "requestCount (rollWindow w g) < MAX_REQUESTS_PER_MINUTE
        \<and> startsWith url (ustr ''https://api.github.com/'')
        \<and> isl (fst (githubRequest h w url options g))"
  have f: "fetched (rollWindow w g) = fetched g" by (simp add: rollWindow_def)
  show "length (fetched (snd (githubRequest h w url options g))) = length (fetched g) + 1"
    using a f by (auto simp: githubRequest_def Let_def split: sum.splits)
  show "requestCount (snd (githubRequest h w url options g)) = requestCount (rollWindow w g) + 1"
    using a githubRequest_admitted_state(1)[of w g h url options]
    by (simp add: MAX_REQUESTS_PER_MINUTE_def)
next
  show "requestCount (rollWindow w g) \<le> requestCount (snd (githubRequest h w url options g))"
    by (auto simp: githubRequest_def Let_def split: sum.splits)
qed

theorem githubRequest_consumes_quota_witness:
  "requestCount (snd (githubRequest plainHost (quietWorld 1000) (ustr ''https://api.github.com/user'')
       noOptions (initialGateway 0))) = 1
   \<and> githubRequest plainHost (quietWorld 1000) (ustr ''https://evil.example/'') noOptions
       (initialGateway 0)
       = (Inl (Plain invalidApiUrl),
          \<lparr>requestCount = 1, requestCountResetTime = 60000, fetched = []\<rparr>)
   \<and> fst (githubRequest plainHost (downWorld 1000) (ustr ''https://api.github.com/user'')
       noOptions (initialGateway 0))
       = Inl (GitHub (GitHubNetworkError (ustr ''Unable to connect to GitHub API'')
                        (ustr ''ECONNREFUSED'')))
   \<and> length (fetched (snd (githubRequest plainHost (downWorld 1000)
       (ustr ''https://api.github.com/user'') noOptions (initialGateway 0)))) = 1
   \<and> requestCount (snd (githubRequest plainHost (downWorld 1000)
       (ustr ''https://api.github.com/user'') noOptions (initialGateway 0))) = 1"
proof -
  have a: "\<not> startsWith (ustr ''https://evil.example/'') (ustr ''https://api.github.com/'')"
    "startsWith (ustr ''https://api.github.com/user'') (ustr ''https://api.github.com/'')"
    by (simp_all add: startsWith_def ustr_def)
  have b: "rollWindow (quietWorld 1000) (initialGateway 0) = initialGateway 0"
    "rollWindow (downWorld 1000) (initialGateway 0) = initialGateway 0"
    "requestCount (initialGateway 0) = 0" "fetched (initialGateway 0) = []"
    "(initialGateway 0)\<lparr>requestCount := 1\<rparr>
       = \<lparr>requestCount = 1, requestCountResetTime = 60000, fetched = []\<rparr>"
    "(0::int) < MAX_REQUESTS_PER_MINUTE"
    by (simp_all add: rollWindow_def quietWorld_def downWorld_def initialGateway_def
        MAX_REQUESTS_PER_MINUTE_def)
  have c: "fst (githubRequest plainHost (downWorld 1000) (ustr ''https://api.github.com/user'')
       noOptions (initialGateway 0))
       = Inl (GitHub (GitHubNetworkError (ustr ''Unable to connect to GitHub API'')
                        (ustr ''ECONNREFUSED'')))"
  proof -
    have d: "fetch (downWorld 1000) req ms = Rejected \<lparr>name = ustr ''TypeError'',
        message = ustr ''fetch failed'', cause_code = Some (ustr ''ECONNREFUSED'')\<rparr>" for req ms
      by (simp add: downWorld_def)
    show ?thesis using a(2)
      by (simp add: githubRequest_def Let_def b(2,3) attempt_def rethrow_def d
          MAX_REQUESTS_PER_MINUTE_def)
        (simp add: ustr_def)
  qed
  show ?thesis
    using githubRequest_consumes_quota[where h = plainHost and w = "quietWorld 1000"
        and url = "ustr ''https://api.github.com/user''" and options = noOptions
        and g = "initialGateway 0"]
      githubRequest_consumes_quota[where h = plainHost and w = "quietWorld 1000"
        and url = "ustr ''https://evil.example/''" and options = noOptions
        and g = "initialGateway 0"]
      githubRequest_consumes_quota[where h = plainHost and w = "downWorld 1000"
        and url = "ustr ''https://api.github.com/user''" and options = noOptions
        and g = "initialGateway 0"]
      a c
    by (simp add: b)
qed

section \<open>Query parameters\<close>

lemma foldl_defined:
  "foldl (\<lambda>u (key, val). case val of None \<Rightarrow> u | Some v \<Rightarrow> appendParam h u key (paramToString h v)) u ps
     = withParams h u (definedPairs h ps)"
proof (induction ps arbitrary: u)
  case Nil show ?case by (simp add: withParams_def definedPairs_def)
next
  case (Cons p ps)
  obtain k v where p: "p = (k, v)" by (cases p)
  show ?case using Cons.IH by (cases v) (simp_all add: p withParams_def definedPairs_def)
qed

lemma buildUrl_eq:
  "buildUrl h baseUrl params =
     (case newURL h baseUrl of Inl e \<Rightarrow> Inl e
      | Inr u \<Rightarrow> Inr (href (withParams h u (definedPairs h params))))"
  by (simp add: buildUrl_def foldl_defined split: sum.splits)

lemma searchParams_withParams: "searchParams (withParams h u qs) = searchParams u @ qs"
proof (induction qs arbitrary: u)
  case Nil show ?case by (simp add: withParams_def)
next
  case (Cons q qs)
  obtain k v where q: "q = (k, v)" by (cases q)
  have "withParams h u (q # qs) = withParams h (appendParam h u k v) qs" by (simp add: withParams_def q)
  then show ?case using Cons.IH[of "appendParam h u k v"] by (simp add: appendParam_def q)
qed

lemma plain_example: "plainUrl (ustr ''https://api.github.com/x'')"
  by (simp add: plainUrl_def startsWith_def ustr_def pathChar_def)

lemma withParams_snoc:
  "withParams h u (qs @ [(k, v)]) = appendParam h (withParams h u qs) k v"
  by (simp add: withParams_def)

lemma withParams_fields:
  "front (withParams h u qs) = front u
   \<and> fragment (withParams h u qs) = fragment u
   \<and> searchParams (withParams h u qs) = searchParams u @ qs
   \<and> query (withParams h u qs) =
       (if qs = [] then query u else Some (serializeParams h (searchParams u @ qs)))"
proof (induction qs rule: rev_induct)
  case Nil
  show ?case by (simp add: withParams_def)
next
  case (snoc q qs)
  obtain k v where q: "q = (k, v)" by (cases q)
  show ?case using snoc unfolding q withParams_snoc by (simp add: appendParam_def)
qed

lemma href_withParams:
  "href (withParams h u qs) =
     (if qs = [] then href u
      else front u @ 63 # serializeParams h (searchParams u @ qs)
             @ (case fragment u of None \<Rightarrow> [] | Some f \<Rightarrow> 35 # f))"
proof (cases "qs = []")
  case True then show ?thesis by (simp add: withParams_def)
next
  case False then show ?thesis using withParams_fields[of h u qs] by (simp add: href_def)
qed

lemma href_plain:
  "href (withParams h \<lparr>front = b, query = None, searchParams = [], fragment = None\<rparr> qs)
     = b @ queryText h qs"
  by (simp add: href_withParams queryText_def serializeParams_def) (simp add: href_def)

lemma formByte_cases:
  "unreserved u \<Longrightarrow> formByte u = [u]"
  "formByte 32 = [43]"
  "\<not> unreserved u \<Longrightarrow> u \<noteq> 32 \<Longrightarrow> formByte u = [37, hexDigit (u div 16), hexDigit (u mod 16)]"
  by (auto simp: formByte_def unreserved_def)

lemma formEncode_unreserved:
  assumes "list_all unreserved s" shows "formEncode h s = s"
proof -
  have a: "list_all (\<lambda>u. u < 128) s" using assms by (induction s) (auto simp: unreserved_def)
  have b: "concat (map formByte s) = s" using assms by (induction s) (auto simp: formByte_cases)
  show ?thesis by (simp add: formEncode_def a b)
qed

lemma unhex_hexDigit: "n < 16 \<Longrightarrow> unhex (hexDigit n) = n"
  by (auto simp: unhex_def hexDigit_def)

lemma hexDigit_queryChar: "n < 16 \<Longrightarrow> queryChar (hexDigit n)"
  by (auto simp: queryChar_def unreserved_def hexDigit_def)

lemma formDecode_formByte:
  assumes "u < 128" shows "formDecode (formByte u @ r) = u # formDecode r"
proof (cases "unreserved u")
  case True
  then have "u \<noteq> 37" "u \<noteq> 43" by (auto simp: unreserved_def)
  then show ?thesis using True by (simp add: formByte_cases)
next
  case False
  show ?thesis
  proof (cases "u = 32")
    case True then show ?thesis by (simp add: formByte_cases)
  next
    case n: False
    have d: "u div 16 < 16" "u mod 16 < 16" using assms by auto
    have "16 * (u div 16) + u mod 16 = u" by simp
    then show ?thesis using False n d by (simp add: formByte_cases unhex_hexDigit)
  qed
qed

lemma formByte_queryChar: "u < 128 \<Longrightarrow> list_all queryChar (formByte u)"
proof (cases "unreserved u")
  case True then show ?thesis by (simp add: formByte_cases queryChar_def)
next
  case False
  assume "u < 128"
  then have d: "u div 16 < 16" "u mod 16 < 16" by auto
  show ?thesis using False d
    by (cases "u = 32") (simp_all add: formByte_cases hexDigit_queryChar, simp_all add: queryChar_def)
qed

lemma formEncode_ascii:
  assumes "list_all (\<lambda>u. u < 128) s"
  shows "formDecode (formEncode h s) = s" and "list_all queryChar (formEncode h s)"
proof -
  have e: "formEncode h s = concat (map formByte s)" using assms by (simp add: formEncode_def)
  show "formDecode (formEncode h s) = s" unfolding e using assms
    by (induction s) (simp_all add: formDecode_formByte)
  show "list_all queryChar (formEncode h s)" unfolding e using assms
    by (induction s) (simp_all add: formByte_queryChar)
qed

text \<open>
  C9. For every base URL and parameter record, \<open>buildUrl\<close> returns the base URL with
  exactly the pairs appended whose value is not \<open>undefined\<close>, each value converted by
  \<open>toString\<close>; a key whose value is \<open>undefined\<close> adds nothing. The URL returned is the
  base up to its path, \<open>?\<close>, the pairs \<open>name=value\<close> in form encoding joined by \<open>&\<close>, and
  the fragment; the encoding leaves letters, digits, \<open>*\<close>, \<open>-\<close>, \<open>.\<close>, \<open>_\<close> as they are and
  decodes back to the text. \<open>toString\<close> of a number gives the decimal digits of a safe
  integer and is the host's elsewhere (beyond \<open>2^53\<close>, for a fraction). For a plain base,
  \<open>buildUrl(base, {a: 1, b: undefined})\<close> is the base followed by \<open>?a=1\<close>.
\<close>

theorem buildUrl_defined_params:
  "(newURL h baseUrl = Inr u \<longrightarrow>
      buildUrl h baseUrl params = Inr (href (withParams h u (definedPairs h params)))
      \<and> searchParams (withParams h u (definedPairs h params))
          = searchParams u @ definedPairs h params)
   \<and> definedPairs h ((k, None) # params) = definedPairs h params
   \<and> definedPairs h ((k, Some v) # params) = (k, paramToString h v) # definedPairs h params
   \<and> href (withParams h u qs) =
       (if qs = [] then href u
        else front u @ 63 # joinWith 38 (map (\<lambda>(k, v). formEncode h k @ 61 # formEncode h v)
                                          (searchParams u @ qs))
               @ (case fragment u of None \<Rightarrow> [] | Some f \<Rightarrow> 35 # f))
   \<and> (plainUrl baseUrl \<longrightarrow>
        buildUrl h baseUrl params = Inr (baseUrl @ queryText h (definedPairs h params)))
   \<and> (list_all (\<lambda>c. c < 128) s \<longrightarrow>
        formDecode (formEncode h s) = s \<and> list_all queryChar (formEncode h s))
   \<and> (list_all unreserved s \<longrightarrow> formEncode h s = s)
   \<and> paramToString h (PString t) = t
   \<and> paramToString h (PNumber (Finite 9007199254740991)) = ustr ''9007199254740991''
   \<and> paramToString h (PNumber (Finite (- 12))) = ustr ''-12''
   \<and> paramToString h (PNumber (Finite 1152921504606846976))
       = numberString h 1152921504606846976
   \<and> paramToString h (PNumber (Finite (3 / 2))) = numberString h (3 / 2)
   \<and> paramToString h (PNumber NaN) = ustr ''NaN''
   \<and> (plainUrl baseUrl \<longrightarrow>
        buildUrl h baseUrl [(ustr ''a'', Some (PNumber (Finite 1))), (ustr ''b'', None)]
          = Inr (baseUrl @ ustr ''?a=1''))
   \<and> (plainUrl baseUrl \<longrightarrow>
        buildUrl h baseUrl
          [(ustr ''q'', Some (PString (ustr ''a b&c=d/e''))), (ustr ''skip'', None),
           (ustr ''page'', Some (PNumber (Finite 2)))]
          = Inr (baseUrl @ ustr ''?q=a+b%26c%3Dd%2Fe&page=2''))"
proof -
  have plain: "buildUrl h baseUrl ps = Inr (baseUrl @ queryText h (definedPairs h ps))"
    if "plainUrl baseUrl" for ps
  proof -
    have n: "newURL h baseUrl
        = Inr \<lparr>front = baseUrl, query = None, searchParams = [], fragment = None\<rparr>"
      using that by (simp add: newURL_def)
    show ?thesis by (simp add: buildUrl_eq n href_plain)
  qed
  have n: "numberToString h (Finite 2) = ustr ''2''"
    by (simp add: numberToString_def isSafeInteger_def showNat.simps ustr_def)
  have q1: "queryText h (definedPairs h [(ustr ''a'', Some (PNumber (Finite 1))), (ustr ''b'', None)])
      = ustr ''?a=1''"
    by (simp add: definedPairs_def numberToString_small queryText_def formEncode_def formByte_def
        ustr_def)
  have q2: "queryText h (definedPairs h
          [(ustr ''q'', Some (PString (ustr ''a b&c=d/e''))), (ustr ''skip'', None),
           (ustr ''page'', Some (PNumber (Finite 2)))])
      = ustr ''?q=a+b%26c%3Dd%2Fe&page=2''"
    by (simp add: definedPairs_def n queryText_def formEncode_def formByte_def hexDigit_def
        ustr_def)
  show ?thesis
  proof (intro conjI impI)
    assume "newURL h baseUrl = Inr u"
    then show "buildUrl h baseUrl params = Inr (href (withParams h u (definedPairs h params)))"
      by (simp add: buildUrl_eq)
    show "searchParams (withParams h u (definedPairs h params)) = searchParams u @ definedPairs h params"
      by (rule searchParams_withParams)
  next
    show "definedPairs h ((k, None) # params) = definedPairs h params"
      by (simp add: definedPairs_def)
    show "definedPairs h ((k, Some v) # params) = (k, paramToString h v) # definedPairs h params"
      by (simp add: definedPairs_def)
    show "href (withParams h u qs) =
       (if qs = [] then href u
        else front u @ 63 # joinWith 38 (map (\<lambda>(k, v). formEncode h k @ 61 # formEncode h v)
                                          (searchParams u @ qs))
               @ (case fragment u of None \<Rightarrow> [] | Some f \<Rightarrow> 35 # f))"
      by (simp add: href_withParams serializeParams_def)
  next
    assume "plainUrl baseUrl"
    then show "buildUrl h baseUrl params = Inr (baseUrl @ queryText h (definedPairs h params))"
      by (rule plain)
  next
    assume a: "list_all (\<lambda>c. c < 128) s"
    show "formDecode (formEncode h s) = s" using a by (rule formEncode_ascii(1))
    show "list_all queryChar (formEncode h s)" using a by (rule formEncode_ascii(2))
  next
    assume "list_all unreserved s"
    then show "formEncode h s = s" by (rule formEncode_unreserved)
  next
    show "paramToString h (PString t) = t" by simp
    show "paramToString h (PNumber (Finite 9007199254740991)) = ustr ''9007199254740991''"
      by (simp add: numberToString_host)
    show "paramToString h (PNumber (Finite (- 12))) = ustr ''-12''"
      by (simp add: numberToString_host)
    show "paramToString h (PNumber (Finite 1152921504606846976))
       = numberString h 1152921504606846976"
      by (simp add: numberToString_host)
    show "paramToString h (PNumber (Finite (3 / 2))) = numberString h (3 / 2)"
      by (simp add: numberToString_host)
    show "paramToString h (PNumber NaN) = ustr ''NaN''"
      by (simp add: numberToString_host)
  next
    assume "plainUrl baseUrl"
    then show "buildUrl h baseUrl [(ustr ''a'', Some (PNumber (Finite 1))), (ustr ''b'', None)]
          = Inr (baseUrl @ ustr ''?a=1'')"
      by (simp add: plain q1)
  next
    assume "plainUrl baseUrl"
    then show "buildUrl h baseUrl
          [(ustr ''q'', Some (PString (ustr ''a b&c=d/e''))), (ustr ''skip'', None),
           (ustr ''page'', Some (PNumber (Finite 2)))]
          = Inr (baseUrl @ ustr ''?q=a+b%26c%3Dd%2Fe&page=2'')"
      by (simp add: plain q2)
  qed
qed

theorem buildUrl_defined_params_witness:
  "buildUrl plainHost (ustr ''https://api.github.com/x'')
        [(ustr ''a'', Some (PNumber (Finite 1))), (ustr ''b'', None)]
       = Inr (ustr ''https://api.github.com/x?a=1'')
   \<and> buildUrl plainHost (ustr ''https://api.github.com/x'')
          [(ustr ''q'', Some (PString (ustr ''a b&c=d/e''))), (ustr ''skip'', None),
           (ustr ''page'', Some (PNumber (Finite 2)))]
       = Inr (ustr ''https://api.github.com/x?q=a+b%26c%3Dd%2Fe&page=2'')
   \<and> searchParams (withParams plainHost
         \<lparr>front = ustr ''https://api.github.com/x'', query = None, searchParams = [],
           fragment = None\<rparr>
         (definedPairs plainHost [(ustr ''a'', Some (PNumber (Finite 1))), (ustr ''b'', None)]))
       = [(ustr ''a'', ustr ''1'')]
   \<and> formEncode plainHost (ustr ''a b&c=d/e'') = ustr ''a+b%26c%3Dd%2Fe''
   \<and> formDecode (ustr ''a+b%26c%3Dd%2Fe'') = ustr ''a b&c=d/e''
   \<and> formEncode plainHost (ustr ''per_page'') = ustr ''per_page''"
proof -
  have n: "newURL plainHost (ustr ''https://api.github.com/x'')
      = Inr \<lparr>front = ustr ''https://api.github.com/x'', query = None, searchParams = [],
            fragment = None\<rparr>"
    using plain_example by (simp add: newURL_def)
  have d: "definedPairs plainHost [(ustr ''a'', Some (PNumber (Finite 1))), (ustr ''b'', None)]
      = [(ustr ''a'', ustr ''1'')]"
    by (simp add: definedPairs_def numberToString_small)
  have a: "list_all (\<lambda>c. c < 128) (ustr ''a b&c=d/e'')" "list_all unreserved (ustr ''per_page'')"
    by (simp_all add: ustr_def unreserved_def)
  have e: "formEncode plainHost (ustr ''a b&c=d/e'') = ustr ''a+b%26c%3Dd%2Fe''"
    by (simp add: formEncode_def formByte_def hexDigit_def ustr_def)
  note T = buildUrl_defined_params[where h = plainHost
        and baseUrl = "ustr ''https://api.github.com/x''"
        and u = "\<lparr>front = ustr ''https://api.github.com/x'', query = None, searchParams = [],
            fragment = None\<rparr>"
        and params = "[(ustr ''a'', Some (PNumber (Finite 1))), (ustr ''b'', None)]"]
  from T plain_example have A: "buildUrl plainHost (ustr ''https://api.github.com/x'')
        [(ustr ''a'', Some (PNumber (Finite 1))), (ustr ''b'', None)]
       = Inr (ustr ''https://api.github.com/x'' @ ustr ''?a=1'')"
    by blast
  from T plain_example have B: "buildUrl plainHost (ustr ''https://api.github.com/x'')
          [(ustr ''q'', Some (PString (ustr ''a b&c=d/e''))), (ustr ''skip'', None),
           (ustr ''page'', Some (PNumber (Finite 2)))]
       = Inr (ustr ''https://api.github.com/x'' @ ustr ''?q=a+b%26c%3Dd%2Fe&page=2'')"
    by blast
  from T n have C: "searchParams (withParams plainHost
         \<lparr>front = ustr ''https://api.github.com/x'', query = None, searchParams = [],
           fragment = None\<rparr>
         (definedPairs plainHost [(ustr ''a'', Some (PNumber (Finite 1))), (ustr ''b'', None)]))
     = searchParams \<lparr>front = ustr ''https://api.github.com/x'', query = None, searchParams = [],
           fragment = None\<rparr>
       @ definedPairs plainHost [(ustr ''a'', Some (PNumber (Finite 1))), (ustr ''b'', None)]"
    by blast
  from buildUrl_defined_params[where h = plainHost and s = "ustr ''a b&c=d/e''"] a(1)
  have D: "formDecode (formEncode plainHost (ustr ''a b&c=d/e'')) = ustr ''a b&c=d/e''"
    by blast
  from buildUrl_defined_params[where h = plainHost and s = "ustr ''per_page''"] a(2)
  have E: "formEncode plainHost (ustr ''per_page'') = ustr ''per_page''"
    by blast
  show ?thesis using A B C D E unfolding d e by (simp add: ustr_def)
qed

lemma owner_octo: "validateOwnerName h (ustr ''octo'') = Inr (ustr ''octo'')"
proof -
  have t: "toLowerCase h (trim (ustr ''octo'')) = ustr ''octo''"
    by (simp add: ustr_def trim_def isWhiteSpace_def toLowerCase_def lowerUnit_def)
  have r: "owner_rule (ustr ''octo'')"
    by (simp add: ustr_def owner_rule_def alnum_def doubleHyphen_def)
  show ?thesis using r by (simp add: validateOwnerName_def Let_def t test_ownerRegex_rule) (simp add: ustr_def)
qed

lemma repo_demo: "validateRepositoryName h (ustr ''demo'') = Inr (ustr ''demo'')"
proof -
  have t: "toLowerCase h (trim (ustr ''demo'')) = ustr ''demo''"
    by (simp add: ustr_def trim_def isWhiteSpace_def toLowerCase_def lowerUnit_def)
  have r: "list_all repoChar (ustr ''demo'')"
    by (simp add: ustr_def repoChar_def alnum_def)
  show ?thesis using r by (simp add: validateRepositoryName_eq t Let_def) (simp add: ustr_def)
qed

lemma await_def2: "await (r, g) k = (case r of Inl e \<Rightarrow> (Inl e, g) | Inr x \<Rightarrow> k x g)"
  by (simp add: await_def split: sum.splits)

text \<open>
  C8. When owner validation fails, \<open>getWorkflowRunJobs\<close> fails with that validation error
  and leaves the gateway as it was: no outbound call and no unit of the quota. Owner
  validation fails for every owner whose trimmed lowercased form breaks the owner-name
  rule, as every form with a space does.
\<close>

theorem getWorkflowRunJobs_invalid_owner:
  "(validateOwnerName h owner = Inl e \<longrightarrow>
      getWorkflowRunJobs h w owner repo runId filter_by page perPage g = (Inl (Plain e), g))
   \<and> (\<not> owner_rule (toLowerCase h (trim owner)) \<longrightarrow> isl (validateOwnerName h owner))
   \<and> (list_ex (\<lambda>u. u = 32) (toLowerCase h (trim owner)) \<longrightarrow>
        \<not> owner_rule (toLowerCase h (trim owner)))"
proof (intro conjI impI)
  assume "validateOwnerName h owner = Inl e"
  then show "getWorkflowRunJobs h w owner repo runId filter_by page perPage g = (Inl (Plain e), g)"
    by (simp add: getWorkflowRunJobs_def orThrow_def)
next
  assume "\<not> owner_rule (toLowerCase h (trim owner))"
  then show "isl (validateOwnerName h owner)"
    by (simp add: validateOwnerName_def Let_def test_ownerRegex_rule)
next
  assume "list_ex (\<lambda>u. u = 32) (toLowerCase h (trim owner))"
  then have "32 \<in> set (toLowerCase h (trim owner))" by (simp add: list_ex_iff)
  moreover have "\<not> (alnum 32 \<or> (32::nat) = 45)" by (simp add: alnum_def)
  ultimately have "\<not> list_all (\<lambda>u. alnum u \<or> u = 45) (toLowerCase h (trim owner))"
    unfolding list_all_iff by blast
  then show "\<not> owner_rule (toLowerCase h (trim owner))" by (simp add: owner_rule_def)
qed

theorem getWorkflowRunJobs_invalid_owner_witness:
  "getWorkflowRunJobs plainHost (quietWorld 1000) (ustr ''Bad Owner'') (ustr ''demo'') (Finite 42)
       None None None (initialGateway 0)
     = (Inl (Plain (newError (ustr
          ''Owner name must start with a letter or number and can contain up to 39 characters''))),
        initialGateway 0)
   \<and> isl (validateOwnerName plainHost (ustr ''Bad Owner''))
   \<and> \<not> owner_rule (ustr ''bad owner'')"
proof -
  have t: "toLowerCase plainHost (trim (ustr ''Bad Owner'')) = ustr ''bad owner''"
    by (simp add: ustr_def trim_def isWhiteSpace_def toLowerCase_def lowerUnit_def)
  have s: "list_ex (\<lambda>u. u = 32) (ustr ''bad owner'')" by (simp add: ustr_def)
  have v: "validateOwnerName plainHost (ustr ''Bad Owner'') = Inl (newError (ustr
          ''Owner name must start with a letter or number and can contain up to 39 characters''))"
    using getWorkflowRunJobs_invalid_owner[where h = plainHost and owner = "ustr ''Bad Owner''"] s
    by (simp add: t validateOwnerName_def Let_def test_ownerRegex_rule) (simp add: ustr_def)
  show ?thesis
    using getWorkflowRunJobs_invalid_owner[where h = plainHost and owner = "ustr ''Bad Owner''"
        and e = "newError (ustr
          ''Owner name must start with a letter or number and can contain up to 39 characters'')"
        and w = "quietWorld 1000" and repo = "ustr ''demo''" and runId = "Finite 42"
        and filter_by = None and page = None and perPage = None and g = "initialGateway 0"]
      v s
    by (simp add: t)
qed

section \<open>The operations\<close>

lemma runs_plain: "plainUrl (ustr ''https://api.github.com/repos/octo/demo/actions/runs'')"
  by (simp add: plainUrl_def startsWith_def ustr_def pathChar_def)

lemma githubRequest_sent:
  assumes "requestCount (rollWindow w g) < MAX_REQUESTS_PER_MINUTE"
    "startsWith url (ustr ''https://api.github.com/'')"
  shows "fetched (snd (githubRequest h w url options g)) = fetched g @
     [\<lparr>req_url = url,
       req_method = (case method_opt options of Some (c # cs) \<Rightarrow> c # cs | _ \<Rightarrow> ustr ''GET''),
       req_headers = requestHeaders h options,
       req_body = (case body options of None \<Rightarrow> None
                   | Some b \<Rightarrow> if truthy b then Some (jsonStringify h b) else None)\<rparr>]"
proof -
  have f: "fetched (rollWindow w g) = fetched g" by (simp add: rollWindow_def)
  show ?thesis using assms f
    by (auto simp: githubRequest_def Let_def split: sum.splits)
qed

lemma dispatch_url:
  "repos (ustr ''octo'') (ustr ''demo'') @ ustr ''/actions/workflows/''
     @ idToString h (WorkflowFile (ustr ''ci.yml'')) @ ustr ''/dispatches''
   = ustr ''https://api.github.com/repos/octo/demo/actions/workflows/ci.yml/dispatches''"
  by (simp add: repos_def ustr_def)

lemma dispatch_trusted:
  "startsWith (ustr ''https://api.github.com/repos/octo/demo/actions/workflows/ci.yml/dispatches'')
     (ustr ''https://api.github.com/'')"
  by (simp add: startsWith_def ustr_def)

lemma ref_main_text:
  \<open>jsonStringify h (JObj [(ustr ''ref'', JStr (ustr ''main''))]) = ustr ''{"ref":"main"}''\<close>
  by (simp add: quoteJSONString_def escapeUnit_def ustr_def)

lemma quiet_success:
  assumes "startsWith url (ustr ''https://api.github.com/'')"
  shows "fst (githubRequest h (quietWorld t) url options (initialGateway 0)) = Inr (JStr [])"
proof -
  have r: "rollWindow (quietWorld t) (initialGateway 0) = (if t > 60000 then
      (initialGateway 0)\<lparr>requestCount := 0, requestCountResetTime := t + 60000\<rparr> else initialGateway 0)"
    by (simp add: rollWindow_def quietWorld_def initialGateway_def)
  have c: "requestCount (rollWindow (quietWorld t) (initialGateway 0)) = 0"
    by (simp add: r) (simp add: initialGateway_def)
  have f: "fetch (quietWorld t) req ms = Responded \<lparr>http_status = 204, content_type = None,
                 json_result = Inr JNull, text_result = Inr []\<rparr>" for req ms
    by (simp add: quietWorld_def)
  show ?thesis using assms
    by (simp add: githubRequest_def Let_def c MAX_REQUESTS_PER_MINUTE_def attempt_def f
        parseResponseBody_def)
qed

lemma initial_admits:
  "requestCount (rollWindow (quietWorld 1000) (initialGateway 0)) < MAX_REQUESTS_PER_MINUTE"
  "fetched (initialGateway 0) = []"
  by (simp_all add: rollWindow_def quietWorld_def initialGateway_def MAX_REQUESTS_PER_MINUTE_def)

lemma snd_await: "snd (await (r, g) (\<lambda>x g'. (f x, g'))) = g"
  by (simp add: await_def2 split: sum.splits)

lemma snd_await_const: "snd (await (r, g1) (\<lambda>x g'. (c, g'))) = g1"
  by (simp add: await_def2 split: sum.splits)

lemma githubRequest_log:
  "fetched (snd (githubRequest h w url options g)) = fetched g
   \<or> fetched (snd (githubRequest h w url options g)) = fetched g @
     [\<lparr>req_url = url,
       req_method = (case method_opt options of Some (c # cs) \<Rightarrow> c # cs | _ \<Rightarrow> ustr ''GET''),
       req_headers = requestHeaders h options,
       req_body = (case body options of None \<Rightarrow> None
                   | Some b \<Rightarrow> if truthy b then Some (jsonStringify h b) else None)\<rparr>]"
proof -
  have f: "fetched (rollWindow w g) = fetched g" by (simp add: rollWindow_def)
  show ?thesis using f
    by (auto simp: githubRequest_def Let_def split: sum.splits simp del: jsonStringify.simps)
qed

text \<open>
  C5. \<open>triggerWorkflow\<close> for owner \<open>octo\<close>, repo \<open>demo\<close>, workflow \<open>ci.yml\<close>, ref
  \<open>main\<close> and no inputs hands the gateway a POST request for the dispatches URL of the
  workflow with the body object \<open>{ref: "main"}\<close>, whose text is \<open>{"ref":"main"}\<close>; the
  only outbound call it can add is that request; and when the gateway call succeeds it
  returns \<open>{success: true, message: "Workflow ci.yml triggered on main"}\<close>.
\<close>

theorem triggerWorkflow_scenario:
  \<open>triggerWorkflow h w (ustr ''octo'') (ustr ''demo'') (WorkflowFile (ustr ''ci.yml''))
       (ustr ''main'') None g
     = await (githubRequest h w
                (ustr ''https://api.github.com/repos/octo/demo/actions/workflows/ci.yml/dispatches'')
                \<lparr>method_opt = Some (ustr ''POST''),
                 body = Some (JObj [(ustr ''ref'', JStr (ustr ''main''))]),
                 headers = None, timeout = None\<rparr> g)
         (\<lambda>response g'.
            (Inr (JObj [(ustr ''success'', JBool True),
                        (ustr ''message'', JStr (ustr ''Workflow ci.yml triggered on main''))]),
             g'))
   \<and> jsonStringify h (JObj [(ustr ''ref'', JStr (ustr ''main''))]) = ustr ''{"ref":"main"}''
   \<and> (fetched (snd (triggerWorkflow h w (ustr ''octo'') (ustr ''demo'')
                      (WorkflowFile (ustr ''ci.yml'')) (ustr ''main'') None g)) = fetched g
        \<or> fetched (snd (triggerWorkflow h w (ustr ''octo'') (ustr ''demo'')
                      (WorkflowFile (ustr ''ci.yml'')) (ustr ''main'') None g))
           = fetched g @
             [\<lparr>req_url = ustr
                 ''https://api.github.com/repos/octo/demo/actions/workflows/ci.yml/dispatches'',
               req_method = ustr ''POST'',
               req_headers = requestHeaders h noOptions,
               req_body = Some (ustr ''{"ref":"main"}'')\<rparr>])
   \<and> (fst (githubRequest h w
             (ustr ''https://api.github.com/repos/octo/demo/actions/workflows/ci.yml/dispatches'')
             \<lparr>method_opt = Some (ustr ''POST''),
              body = Some (JObj [(ustr ''ref'', JStr (ustr ''main''))]),
              headers = None, timeout = None\<rparr> g) = Inr b \<longrightarrow>
      fst (triggerWorkflow h w (ustr ''octo'') (ustr ''demo'')
             (WorkflowFile (ustr ''ci.yml'')) (ustr ''main'') None g)
        = Inr (JObj [(ustr ''success'', JBool True),
                     (ustr ''message'', JStr (ustr ''Workflow ci.yml triggered on main''))]))\<close>
proof -
  let ?url = "ustr ''https://api.github.com/repos/octo/demo/actions/workflows/ci.yml/dispatches''"
  let ?opts = "\<lparr>method_opt = Some (ustr ''POST''),
                 body = Some (JObj [(ustr ''ref'', JStr (ustr ''main''))]),
                 headers = None, timeout = None\<rparr>"
  let ?ack = "JObj [(ustr ''success'', JBool True),
                     (ustr ''message'', JStr (ustr ''Workflow ci.yml triggered on main''))]"
  have t: "triggerWorkflow h w (ustr ''octo'') (ustr ''demo'')
             (WorkflowFile (ustr ''ci.yml'')) (ustr ''main'') None g
     = await (githubRequest h w ?url ?opts g) (\<lambda>response g'. (Inr ?ack, g'))"
    by (simp add: triggerWorkflow_def orThrow_def owner_octo repo_demo dispatchBody_def post_def)
       (simp add: ustr_def repos_def)
  obtain r g1 where r: "githubRequest h w ?url ?opts g = (r, g1)"
    by (cases "githubRequest h w ?url ?opts g")
  have s: "snd (triggerWorkflow h w (ustr ''octo'') (ustr ''demo'')
             (WorkflowFile (ustr ''ci.yml'')) (ustr ''main'') None g) = g1"
    by (simp add: t r snd_await_const)
  have hd: "requestHeaders h ?opts = requestHeaders h noOptions"
    by (simp add: requestHeaders_def noOptions_def)
  have mp: "(case ustr ''POST'' of [] \<Rightarrow> ustr ''GET'' | c # cs \<Rightarrow> c # cs) = ustr ''POST''"
    by (simp add: ustr_def)
  have log: \<open>fetched g1 = fetched g \<or> fetched g1 = fetched g @
          [\<lparr>req_url = ?url, req_method = ustr ''POST'',
            req_headers = requestHeaders h noOptions,
            req_body = Some (ustr ''{"ref":"main"}'')\<rparr>]\<close>
    using githubRequest_log[of h w ?url ?opts g]
    by (simp add: r hd mp ref_main_text del: jsonStringify.simps)
  have ok: "fst (githubRequest h w ?url ?opts g) = Inr b \<Longrightarrow>
      fst (triggerWorkflow h w (ustr ''octo'') (ustr ''demo'')
             (WorkflowFile (ustr ''ci.yml'')) (ustr ''main'') None g) = Inr ?ack"
    by (simp add: t r await_def2)
  show ?thesis using t log ok ref_main_text[of h] unfolding s by blast
qed

theorem triggerWorkflow_scenario_witness:
  \<open>fetched (snd (triggerWorkflow plainHost (quietWorld 1000) (ustr ''octo'') (ustr ''demo'')
                      (WorkflowFile (ustr ''ci.yml'')) (ustr ''main'') None (initialGateway 0)))
        = [\<lparr>req_url = ustr
              ''https://api.github.com/repos/octo/demo/actions/workflows/ci.yml/dispatches'',
            req_method = ustr ''POST'',
            req_headers = [(ustr ''Accept'', ustr ''application/vnd.github.v3+json''),
                           (ustr ''Content-Type'', ustr ''application/json''),
                           (ustr ''User-Agent'', ustr ''github-actions-mcp'')],
            req_body = Some (ustr ''{"ref":"main"}'')\<rparr>]
   \<and> fst (triggerWorkflow plainHost (quietWorld 1000) (ustr ''octo'') (ustr ''demo'')
             (WorkflowFile (ustr ''ci.yml'')) (ustr ''main'') None (initialGateway 0))
        = Inr (JObj [(ustr ''success'', JBool True),
                     (ustr ''message'', JStr (ustr ''Workflow ci.yml triggered on main''))])
   \<and> jsonStringify plainHost (JObj [(ustr ''ref'', JStr (ustr ''main''))])
        = ustr ''{"ref":"main"}''\<close>
proof -
  let ?url = "ustr ''https://api.github.com/repos/octo/demo/actions/workflows/ci.yml/dispatches''"
  let ?opts = "\<lparr>method_opt = Some (ustr ''POST''),
                 body = Some (JObj [(ustr ''ref'', JStr (ustr ''main''))]),
                 headers = None, timeout = None\<rparr>"
  note T = triggerWorkflow_scenario[where h = plainHost and w = "quietWorld 1000"
        and g = "initialGateway 0" and b = "JStr []"]
  have hd: "requestHeaders plainHost ?opts =
      [(ustr ''Accept'', ustr ''application/vnd.github.v3+json''),
       (ustr ''Content-Type'', ustr ''application/json''),
       (ustr ''User-Agent'', ustr ''github-actions-mcp'')]"
    by (simp add: requestHeaders_def plainHost_def)
  have mp: "(case ustr ''POST'' of [] \<Rightarrow> ustr ''GET'' | c # cs \<Rightarrow> c # cs) = ustr ''POST''"
    by (simp add: ustr_def)
  from T have eq: "triggerWorkflow plainHost (quietWorld 1000) (ustr ''octo'') (ustr ''demo'')
             (WorkflowFile (ustr ''ci.yml'')) (ustr ''main'') None (initialGateway 0)
     = await (githubRequest plainHost (quietWorld 1000) ?url ?opts (initialGateway 0))
         (\<lambda>response g'.
            (Inr (JObj [(ustr ''success'', JBool True),
                        (ustr ''message'', JStr (ustr ''Workflow ci.yml triggered on main''))]),
             g'))"
    by blast
  from T have bt: \<open>jsonStringify plainHost (JObj [(ustr ''ref'', JStr (ustr ''main''))])
        = ustr ''{"ref":"main"}''\<close>
    by blast
  from T quiet_success[OF dispatch_trusted, of plainHost 1000 ?opts]
  have res: "fst (triggerWorkflow plainHost (quietWorld 1000) (ustr ''octo'') (ustr ''demo'')
             (WorkflowFile (ustr ''ci.yml'')) (ustr ''main'') None (initialGateway 0))
        = Inr (JObj [(ustr ''success'', JBool True),
                     (ustr ''message'', JStr (ustr ''Workflow ci.yml triggered on main''))])"
    by blast
  obtain r g1 where r: "githubRequest plainHost (quietWorld 1000) ?url ?opts (initialGateway 0) = (r, g1)"
    by (cases "githubRequest plainHost (quietWorld 1000) ?url ?opts (initialGateway 0)")
  have sent: \<open>fetched g1 =
        [\<lparr>req_url = ?url, req_method = ustr ''POST'',
            req_headers = [(ustr ''Accept'', ustr ''application/vnd.github.v3+json''),
                           (ustr ''Content-Type'', ustr ''application/json''),
                           (ustr ''User-Agent'', ustr ''github-actions-mcp'')],
            req_body = Some (ustr ''{"ref":"main"}'')\<rparr>]\<close>
    using githubRequest_sent[OF initial_admits(1) dispatch_trusted, of plainHost ?opts]
    by (simp add: r hd mp bt initial_admits(2) del: jsonStringify.simps)
  show ?thesis using sent res bt by (simp add: eq r snd_await_const)
qed

lemma definedPairs_runs:
  "definedPairs h (listWorkflowRunsParams options) =
     given (ustr ''actor'') (opt_actor options)
     @ given (ustr ''branch'') (opt_branch options)
     @ given (ustr ''event'') (opt_event options)
     @ given (ustr ''status'') (opt_status options)
     @ given (ustr ''created'') (opt_created options)
     @ (if opt_excludePullRequests options = Some True
        then [(ustr ''exclude_pull_requests'', ustr ''true'')] else [])
     @ given (ustr ''check_suite_id'') (map_option (numberToString h) (opt_checkSuiteId options))
     @ given (ustr ''page'') (map_option (numberToString h) (opt_page options))
     @ given (ustr ''per_page'') (map_option (numberToString h) (opt_perPage options))"
  by (simp add: definedPairs_def listWorkflowRunsParams_def given_def split: option.splits)

lemma splitOn_no_sep: "c \<notin> set a \<Longrightarrow> splitOn c a = [a]"
  by (induction a) (auto split: list.splits)

lemma splitOn_sep: "c \<notin> set a \<Longrightarrow> splitOn c (a @ c # b) = a # splitOn c b"
  by (induction a) (auto split: list.splits)

lemma validateOwnerName_Inr: "validateOwnerName h owner = Inr ow \<Longrightarrow> owner_rule ow"
  by (auto simp: validateOwnerName_def Let_def test_ownerRegex_rule split: if_splits)

lemma validateRepositoryName_Inr:
  "validateRepositoryName h repo = Inr rp \<Longrightarrow> rp \<noteq> [] \<and> list_all repoChar rp \<and> hd rp \<noteq> 46"
  unfolding validateRepositoryName_eq Let_def by (auto split: if_splits)

lemma plain_runs:
  assumes "owner_rule ow" "rp \<noteq> []" "list_all repoChar rp" "hd rp \<noteq> 46"
  shows "plainUrl (repos ow rp @ ustr ''/actions/runs'')"
proof -
  let ?s = "repos ow rp @ ustr ''/actions/runs''"
  have st: "startsWith ?s (ustr ''https://api.github.com/'')"
    by (simp add: startsWith_def repos_def ustr_def)
  have d: "drop 23 ?s = ustr ''repos'' @ 47 # ow @ 47 # rp @ 47 # ustr ''actions'' @ 47 # ustr ''runs''"
    by (simp add: repos_def ustr_def)
  have oc: "list_all (\<lambda>u. alnum u \<or> u = 45) ow" "ow \<noteq> []" "alnum (hd ow)"
    using assms(1) by (simp_all add: owner_rule_def)
  have o47: "47 \<notin> set ow" using oc(1) by (auto simp: list_all_iff alnum_def)
  have r47: "47 \<notin> set rp" using assms(3) by (auto simp: list_all_iff repoChar_def alnum_def)
  have l47: "47 \<notin> set (ustr ''repos'')" "47 \<notin> set (ustr ''actions'')" "47 \<notin> set (ustr ''runs'')"
    by (simp_all add: ustr_def)
  have seg: "splitOn 47 (drop 23 ?s) = [ustr ''repos'', ow, rp, ustr ''actions'', ustr ''runs'']"
    unfolding d by (simp add: splitOn_sep l47 o47 r47 splitOn_no_sep)
  have po: "list_all pathChar ow" using oc(1) by (auto simp: list_all_iff alnum_def pathChar_def)
  have pr: "list_all pathChar rp" using assms(3)
    by (auto simp: list_all_iff repoChar_def alnum_def pathChar_def)
  have pc: "list_all pathChar (drop 23 ?s)" unfolding d using po pr
    by (simp add: ustr_def pathChar_def)
  have "\<not> alnum 46" by (simp add: alnum_def)
  then have on: "ow \<noteq> ustr ''.''" "ow \<noteq> ustr ''..''" using oc(3) by (auto simp: ustr_def)
  have rn: "rp \<noteq> ustr ''.''" "rp \<noteq> ustr ''..''" using assms(4) by (auto simp: ustr_def)
  have sg: "list_all (\<lambda>seg. seg \<noteq> ustr ''.'' \<and> seg \<noteq> ustr ''..'') (splitOn 47 (drop 23 ?s))"
    unfolding seg using on rn by (simp add: ustr_def)
  show ?thesis unfolding plainUrl_def using st pc sg by simp
qed

lemma runs_base_noWorkflow:
  "noWorkflow options \<Longrightarrow> listWorkflowRunsBase h ow rp options = repos ow rp @ ustr ''/actions/runs''"
  by (auto simp: noWorkflow_def listWorkflowRunsBase_def split: option.splits)

lemma listWorkflowRuns_noWorkflow:
  assumes "validateOwnerName h owner = Inr ow" "validateRepositoryName h repo = Inr rp"
    "noWorkflow options"
  shows "listWorkflowRuns h w owner repo options g =
      await (githubRequest h w
               (repos ow rp @ ustr ''/actions/runs''
                  @ queryText h (definedPairs h (listWorkflowRunsParams options)))
               noOptions g)
        (\<lambda>response g'. (schemaParse h WorkflowRunsSchema response, g'))"
proof -
  have p: "plainUrl (repos ow rp @ ustr ''/actions/runs'')"
    using validateOwnerName_Inr[OF assms(1)] validateRepositoryName_Inr[OF assms(2)]
    by (intro plain_runs) simp_all
  have n: "newURL h (repos ow rp @ ustr ''/actions/runs'')
      = Inr \<lparr>front = repos ow rp @ ustr ''/actions/runs'', query = None, searchParams = [],
            fragment = None\<rparr>"
    using p by (simp add: newURL_def)
  show ?thesis
    by (simp add: listWorkflowRuns_def orThrow_def assms(1,2) runs_base_noWorkflow[OF assms(3)]
        buildUrl_eq n href_plain)
qed

lemma busy_pairs:
  "definedPairs h (listWorkflowRunsParams busyOptions) =
     [(ustr ''actor'', ustr ''octo cat''), (ustr ''branch'', ustr ''feat/x&y''),
      (ustr ''exclude_pull_requests'', ustr ''true''), (ustr ''page'', ustr ''2''),
      (ustr ''per_page'', ustr ''50'')]"
proof -
  have n: "numberToString h (Finite 2) = ustr ''2''" "numberToString h (Finite 50) = ustr ''50''"
    by (simp_all add: numberToString_def isSafeInteger_def showNat.simps ustr_def)
  show ?thesis by (simp add: definedPairs_runs given_def busyOptions_def n)
qed

lemma busy_query:
  "queryText h (definedPairs h (listWorkflowRunsParams busyOptions)) =
     ustr ''?actor=octo+cat&branch=feat%2Fx%26y&exclude_pull_requests=true&page=2&per_page=50''"
  by (simp add: busy_pairs queryText_def formEncode_def formByte_def hexDigit_def ustr_def)

lemma runs_base: "listWorkflowRunsBase h (ustr ''octo'') (ustr ''demo'') (onlyExclude b)
    = ustr ''https://api.github.com/repos/octo/demo/actions/runs''"
  by (simp add: listWorkflowRunsBase_def onlyExclude_def repos_def ustr_def)

lemma runs_newURL: "newURL h (ustr ''https://api.github.com/repos/octo/demo/actions/runs'')
    = Inr \<lparr>front = ustr ''https://api.github.com/repos/octo/demo/actions/runs'', query = None,
          searchParams = [], fragment = None\<rparr>"
  using runs_plain by (simp add: newURL_def)

lemma runs_url_false:
  "buildUrl h (listWorkflowRunsBase h (ustr ''octo'') (ustr ''demo'') (onlyExclude False))
     (listWorkflowRunsParams (onlyExclude False))
   = Inr (ustr ''https://api.github.com/repos/octo/demo/actions/runs'')"
  by (simp add: buildUrl_eq runs_base runs_newURL definedPairs_runs given_def withParams_def href_def)
     (simp add: onlyExclude_def)

lemma runs_trusted:
  "startsWith (ustr ''https://api.github.com/repos/octo/demo/actions/runs'') (ustr ''https://api.github.com/'')"
  "startsWith (ustr ''https://api.github.com/repos/octo/demo/actions/runs?exclude_pull_requests=true'') (ustr ''https://api.github.com/'')"
  by (simp_all add: startsWith_def ustr_def)

lemma runs_sent:
  assumes "buildUrl h (listWorkflowRunsBase h (ustr ''octo'') (ustr ''demo'') options)
     (listWorkflowRunsParams options) = Inr url" "startsWith url (ustr ''https://api.github.com/'')"
  shows "map req_url (fetched (snd (listWorkflowRuns h (quietWorld 1000) (ustr ''octo'') (ustr ''demo'')
      options (initialGateway 0)))) = [url]"
proof -
  obtain r g1 where r: "githubRequest h (quietWorld 1000) url noOptions (initialGateway 0) = (r, g1)"
    by (cases "githubRequest h (quietWorld 1000) url noOptions (initialGateway 0)")
  have "snd (listWorkflowRuns h (quietWorld 1000) (ustr ''octo'') (ustr ''demo'')
      options (initialGateway 0)) = g1"
    by (simp add: listWorkflowRuns_def orThrow_def owner_octo repo_demo assms(1) r snd_await)
  then show ?thesis
    using githubRequest_sent[OF initial_admits(1) assms(2), of h noOptions] r
    by (simp add: initial_admits(2))
qed

lemma owner_Octo: "validateOwnerName h (ustr '' Octo '') = Inr (ustr ''octo'')"
proof -
  have t: "toLowerCase h (trim (ustr '' Octo '')) = ustr ''octo''"
    by (simp add: ustr_def trim_def isWhiteSpace_def toLowerCase_def lowerUnit_def)
  have r: "owner_rule (ustr ''octo'')"
    by (simp add: ustr_def owner_rule_def alnum_def doubleHyphen_def)
  show ?thesis using r by (simp add: validateOwnerName_def Let_def t test_ownerRegex_rule) (simp add: ustr_def)
qed

text \<open>
  C4 (as amended). \<open>listWorkflowRuns\<close> requests the base URL with the pairs of the
  parameters that are not \<open>undefined\<close>, in the order of the record and in form encoding;
  the pair \<open>exclude_pull_requests=true\<close> is among them when \<open>excludePullRequests\<close> is
  \<open>true\<close>, and no pair for that key when it is \<open>false\<close> or not set. When no workflow is
  named, the URL is \<open>https://api.github.com/repos/OWNER/REPO/actions/runs\<close> followed by
  that query. A number is converted by \<open>toString\<close>: the decimal digits of a safe integer,
  the host's digits elsewhere.
\<close>

theorem listWorkflowRuns_query:
  "(validateOwnerName h owner = Inr ow \<and> validateRepositoryName h repo = Inr rp
      \<and> noWorkflow options \<longrightarrow>
      listWorkflowRuns h w owner repo options g =
        await (githubRequest h w
                 (repos ow rp @ ustr ''/actions/runs''
                    @ queryText h (definedPairs h (listWorkflowRunsParams options)))
                 noOptions g)
          (\<lambda>response g'. (schemaParse h WorkflowRunsSchema response, g')))
   \<and> (validateOwnerName h owner = Inr ow \<and> validateRepositoryName h repo = Inr rp
      \<and> newURL h (listWorkflowRunsBase h ow rp options) = Inr u \<longrightarrow>
      listWorkflowRuns h w owner repo options g =
        await (githubRequest h w
                 (href (withParams h u (definedPairs h (listWorkflowRunsParams options))))
                 noOptions g)
          (\<lambda>response g'. (schemaParse h WorkflowRunsSchema response, g')))
   \<and> href (withParams h u qs) =
       (if qs = [] then href u
        else front u @ 63 # joinWith 38 (map (\<lambda>(k, v). formEncode h k @ 61 # formEncode h v)
                                          (searchParams u @ qs))
               @ (case fragment u of None \<Rightarrow> [] | Some f \<Rightarrow> 35 # f))
   \<and> definedPairs h (listWorkflowRunsParams options) =
       given (ustr ''actor'') (opt_actor options)
       @ given (ustr ''branch'') (opt_branch options)
       @ given (ustr ''event'') (opt_event options)
       @ given (ustr ''status'') (opt_status options)
       @ given (ustr ''created'') (opt_created options)
       @ (if opt_excludePullRequests options = Some True
          then [(ustr ''exclude_pull_requests'', ustr ''true'')] else [])
       @ given (ustr ''check_suite_id'') (map_option (numberToString h) (opt_checkSuiteId options))
       @ given (ustr ''page'') (map_option (numberToString h) (opt_page options))
       @ given (ustr ''per_page'') (map_option (numberToString h) (opt_perPage options))
   \<and> given k None = [] \<and> given k (Some x) = [(k, x)]
   \<and> numberToString h (Finite 9007199254740991) = ustr ''9007199254740991''
   \<and> numberToString h (Finite 1152921504606846976) = numberString h 1152921504606846976
   \<and> numberToString h (Finite (3 / 2)) = numberString h (3 / 2)
   \<and> listWorkflowRuns h w (ustr ''octo'') (ustr ''demo'') busyOptions g =
        await (githubRequest h w
                 (ustr ''https://api.github.com/repos/octo/demo/actions/runs?actor=octo+cat&branch=feat%2Fx%26y&exclude_pull_requests=true&page=2&per_page=50'')
                 noOptions g)
          (\<lambda>response g'. (schemaParse h WorkflowRunsSchema response, g'))
   \<and> listWorkflowRuns h w (ustr ''octo'') (ustr ''demo'') (onlyExclude False) g =
        await (githubRequest h w (ustr ''https://api.github.com/repos/octo/demo/actions/runs'')
                 noOptions g)
          (\<lambda>response g'. (schemaParse h WorkflowRunsSchema response, g'))"
proof (intro conjI impI)
  assume "validateOwnerName h owner = Inr ow \<and> validateRepositoryName h repo = Inr rp
      \<and> noWorkflow options"
  then show "listWorkflowRuns h w owner repo options g =
        await (githubRequest h w
                 (repos ow rp @ ustr ''/actions/runs''
                    @ queryText h (definedPairs h (listWorkflowRunsParams options)))
                 noOptions g)
          (\<lambda>response g'. (schemaParse h WorkflowRunsSchema response, g'))"
    by (intro listWorkflowRuns_noWorkflow) simp_all
next
  assume "validateOwnerName h owner = Inr ow \<and> validateRepositoryName h repo = Inr rp
      \<and> newURL h (listWorkflowRunsBase h ow rp options) = Inr u"
  then show "listWorkflowRuns h w owner repo options g =
        await (githubRequest h w
                 (href (withParams h u (definedPairs h (listWorkflowRunsParams options))))
                 noOptions g)
          (\<lambda>response g'. (schemaParse h WorkflowRunsSchema response, g'))"
    by (simp add: listWorkflowRuns_def orThrow_def buildUrl_eq)
next
  show "href (withParams h u qs) =
       (if qs = [] then href u
        else front u @ 63 # joinWith 38 (map (\<lambda>(k, v). formEncode h k @ 61 # formEncode h v)
                                          (searchParams u @ qs))
               @ (case fragment u of None \<Rightarrow> [] | Some f \<Rightarrow> 35 # f))"
    by (simp add: href_withParams serializeParams_def)
next
  show "definedPairs h (listWorkflowRunsParams options) =
       given (ustr ''actor'') (opt_actor options)
       @ given (ustr ''branch'') (opt_branch options)
       @ given (ustr ''event'') (opt_event options)
       @ given (ustr ''status'') (opt_status options)
       @ given (ustr ''created'') (opt_created options)
       @ (if opt_excludePullRequests options = Some True
          then [(ustr ''exclude_pull_requests'', ustr ''true'')] else [])
       @ given (ustr ''check_suite_id'') (map_option (numberToString h) (opt_checkSuiteId options))
       @ given (ustr ''page'') (map_option (numberToString h) (opt_page options))
       @ given (ustr ''per_page'') (map_option (numberToString h) (opt_perPage options))"
    by (rule definedPairs_runs)
  show "given k None = []" by (simp add: given_def)
  show "given k (Some x) = [(k, x)]" by (simp add: given_def)
  show "numberToString h (Finite 9007199254740991) = ustr ''9007199254740991''"
    by (rule numberToString_host)
  show "numberToString h (Finite 1152921504606846976) = numberString h 1152921504606846976"
    by (rule numberToString_host)
  show "numberToString h (Finite (3 / 2)) = numberString h (3 / 2)"
    by (rule numberToString_host)
next
  have nb: "noWorkflow busyOptions" by (simp add: noWorkflow_def busyOptions_def)
  show "listWorkflowRuns h w (ustr ''octo'') (ustr ''demo'') busyOptions g =
        await (githubRequest h w
                 (ustr ''https://api.github.com/repos/octo/demo/actions/runs?actor=octo+cat&branch=feat%2Fx%26y&exclude_pull_requests=true&page=2&per_page=50'')
                 noOptions g)
          (\<lambda>response g'. (schemaParse h WorkflowRunsSchema response, g'))"
    by (simp add: listWorkflowRuns_noWorkflow[OF owner_octo repo_demo nb] busy_query)
       (simp add: repos_def ustr_def)
next
  have nf: "noWorkflow (onlyExclude False)" by (simp add: noWorkflow_def onlyExclude_def)
  have q: "queryText h (definedPairs h (listWorkflowRunsParams (onlyExclude False))) = []"
    by (simp add: definedPairs_runs given_def onlyExclude_def queryText_def)
  show "listWorkflowRuns h w (ustr ''octo'') (ustr ''demo'') (onlyExclude False) g =
        await (githubRequest h w (ustr ''https://api.github.com/repos/octo/demo/actions/runs'')
                 noOptions g)
          (\<lambda>response g'. (schemaParse h WorkflowRunsSchema response, g'))"
    by (simp add: listWorkflowRuns_noWorkflow[OF owner_octo repo_demo nf] q)
       (simp add: repos_def ustr_def)
qed

text \<open>
  C4 as stated fails: with \<open>excludePullRequests\<close> set to \<open>false\<close> the URL requested has
  no query; \<open>exclude_pull_requests=false\<close> is not sent.
\<close>

theorem listWorkflowRuns_query_counterexample:
  "opt_excludePullRequests (onlyExclude False) = Some False
   \<and> map req_url (fetched (snd (listWorkflowRuns plainHost (quietWorld 1000) (ustr ''octo'')
        (ustr ''demo'') (onlyExclude False) (initialGateway 0))))
       = [ustr ''https://api.github.com/repos/octo/demo/actions/runs'']"
  using runs_sent[OF runs_url_false runs_trusted(1)] by (simp add: onlyExclude_def)

theorem listWorkflowRuns_query_witness:
  "listWorkflowRuns plainHost (quietWorld 1000) (ustr '' Octo '') (ustr ''demo'') busyOptions
      (initialGateway 0) =
     await (githubRequest plainHost (quietWorld 1000)
              (ustr ''https://api.github.com/repos/octo/demo/actions/runs?actor=octo+cat&branch=feat%2Fx%26y&exclude_pull_requests=true&page=2&per_page=50'')
              noOptions (initialGateway 0))
       (\<lambda>response g'. (schemaParse plainHost WorkflowRunsSchema response, g'))
   \<and> listWorkflowRuns plainHost (quietWorld 1000) (ustr '' Octo '') (ustr ''demo'')
      (onlyExclude True) (initialGateway 0) =
     await (githubRequest plainHost (quietWorld 1000)
              (ustr ''https://api.github.com/repos/octo/demo/actions/runs?exclude_pull_requests=true'')
              noOptions (initialGateway 0))
       (\<lambda>response g'. (schemaParse plainHost WorkflowRunsSchema response, g'))
   \<and> definedPairs plainHost (listWorkflowRunsParams (onlyExclude True))
       = [(ustr ''exclude_pull_requests'', ustr ''true'')]
   \<and> definedPairs plainHost (listWorkflowRunsParams (onlyExclude False)) = []"
proof -
  have nb: "noWorkflow busyOptions" "noWorkflow (onlyExclude True)"
    by (simp_all add: noWorkflow_def busyOptions_def onlyExclude_def)
  note B = listWorkflowRuns_query[where h = plainHost and owner = "ustr '' Octo ''"
      and ow = "ustr ''octo''" and repo = "ustr ''demo''" and rp = "ustr ''demo''"
      and options = busyOptions and w = "quietWorld 1000" and g = "initialGateway 0"]
  note T = listWorkflowRuns_query[where h = plainHost and owner = "ustr '' Octo ''"
      and ow = "ustr ''octo''" and repo = "ustr ''demo''" and rp = "ustr ''demo''"
      and options = "onlyExclude True" and w = "quietWorld 1000" and g = "initialGateway 0"
      and u = "\<lparr>front = ustr ''https://api.github.com/repos/octo/demo/actions/runs'',
          query = None, searchParams = [], fragment = None\<rparr>"]
  note F = listWorkflowRuns_query[where h = plainHost and options = "onlyExclude False"]
  have b: "newURL plainHost (listWorkflowRunsBase plainHost (ustr ''octo'') (ustr ''demo'') (onlyExclude True))
      = Inr \<lparr>front = ustr ''https://api.github.com/repos/octo/demo/actions/runs'', query = None,
          searchParams = [], fragment = None\<rparr>"
    by (simp add: runs_base runs_newURL)
  have A1: "listWorkflowRuns plainHost (quietWorld 1000) (ustr '' Octo '') (ustr ''demo'') busyOptions
      (initialGateway 0) =
     await (githubRequest plainHost (quietWorld 1000)
              (ustr ''https://api.github.com/repos/octo/demo/actions/runs?actor=octo+cat&branch=feat%2Fx%26y&exclude_pull_requests=true&page=2&per_page=50'')
              noOptions (initialGateway 0))
       (\<lambda>response g'. (schemaParse plainHost WorkflowRunsSchema response, g'))"
    using B owner_Octo[of plainHost] repo_demo[of plainHost] nb(1)
    by (simp add: busy_query) (simp add: repos_def ustr_def)
  have B1: "definedPairs plainHost (listWorkflowRunsParams (onlyExclude True))
       = [(ustr ''exclude_pull_requests'', ustr ''true'')]"
    using T by (simp add: onlyExclude_def)
  have e: "formEncode plainHost (ustr ''exclude_pull_requests'') = ustr ''exclude_pull_requests''"
    "formEncode plainHost (ustr ''true'') = ustr ''true''"
    by (simp_all add: formEncode_def formByte_def ustr_def)
  have A2: "listWorkflowRuns plainHost (quietWorld 1000) (ustr '' Octo '') (ustr ''demo'')
      (onlyExclude True) (initialGateway 0) =
     await (githubRequest plainHost (quietWorld 1000)
              (ustr ''https://api.github.com/repos/octo/demo/actions/runs?exclude_pull_requests=true'')
              noOptions (initialGateway 0))
       (\<lambda>response g'. (schemaParse plainHost WorkflowRunsSchema response, g'))"
    using T owner_Octo[of plainHost] repo_demo[of plainHost] b
    by (simp add: B1 e) (simp add: ustr_def)
  have C1: "definedPairs plainHost (listWorkflowRunsParams (onlyExclude False)) = []"
    using F by (simp add: onlyExclude_def)
  show ?thesis using A1 A2 B1 C1 by simp
qed

end
